theory Spec2Isabelle
  imports Complex_Main "HOL-Library.Word"
begin

unbundle bit_operations_syntax

section \<open>Basic types (types.h)\<close>

text \<open>
  \<open>size_t\<close> and \<open>uint64_t\<close> are 64-bit unsigned integers, the identifier types
  (\<open>ThreadID\<close>, \<open>WarpID\<close>, \<open>BlockID\<close>, \<open>CoreID\<close>) are 32-bit unsigned integers.
  Arithmetic on them wraps around. Sizes and indices of vectors that are held in
  memory are natural numbers (the length of the list that models the vector).
\<close>

type_synonym size_t = "64 word"
type_synonym uint64_t = "64 word"
type_synonym uint32_t = "32 word"
type_synonym ThreadID = "32 word"
type_synonym WarpID = "32 word"
type_synonym BlockID = "32 word"
type_synonym CoreID = "32 word"
type_synonym MemoryAddress = "64 word"

definition WARP_SIZE :: size_t where
  "WARP_SIZE = 32"

definition MAX_THREADS_PER_BLOCK :: size_t where
  "MAX_THREADS_PER_BLOCK = 1024"

definition GLOBAL_MEMORY_SIZE :: size_t where
  "GLOBAL_MEMORY_SIZE = 8 * 1024 * 1024 * 1024"

definition SHARED_MEMORY_PER_BLOCK :: size_t where
  "SHARED_MEMORY_PER_BLOCK = 48 * 1024"

definition REGISTERS_PER_THREAD :: size_t where
  "REGISTERS_PER_THREAD = 255"

datatype WorkloadType = MATRIX_MULTIPLY | CONVOLUTION | VECTOR_ADD | REDUCTION | CUSTOM

datatype SchedulingAlgorithm = FIFO | PRIORITY | ROUND_ROBIN | SHORTEST_JOB_FIRST

datatype ExecutionState = IDLE | READY | RUNNING | MEMORY_STALLED | COMPLETED

section \<open>Memory hierarchy (memory.h, memory.cpp)\<close>

text \<open>
  The base class \<open>Memory\<close> and its subclasses. The mutex is left out: every method
  is modelled as one atomic step. \<open>data\<close> is the byte buffer; \<open>read\<close> and \<open>write\<close>
  never touch it.
\<close>

record Memory =
  mem_size :: size_t
  latency_cycles :: size_t
  access_count :: uint64_t

record GlobalMemory = Memory +
  global_data :: "8 word list"
  read_count :: uint64_t
  write_count :: uint64_t
  bytes_read :: uint64_t
  bytes_written :: uint64_t

definition new_GlobalMemory :: "size_t \<Rightarrow> GlobalMemory" where
  "new_GlobalMemory sz =
     \<lparr>mem_size = sz, latency_cycles = 400, access_count = 0,
      global_data = replicate (unat sz) 0,
      read_count = 0, write_count = 0, bytes_read = 0, bytes_written = 0\<rparr>"

text \<open>
  \<open>address + bytes > size_\<close> is an addition of two 64-bit unsigned values: it wraps.
  The result is the returned flag and the memory after the call.
\<close>

definition GlobalMemory_read :: "MemoryAddress \<Rightarrow> size_t \<Rightarrow> GlobalMemory \<Rightarrow> bool \<times> GlobalMemory" where
  "GlobalMemory_read address bytes m =
     (if address + bytes > mem_size m then (False, m)
      else (True, m\<lparr>access_count := access_count m + 1,
                     read_count := read_count m + 1,
                     bytes_read := bytes_read m + bytes\<rparr>))"

definition GlobalMemory_write :: "MemoryAddress \<Rightarrow> size_t \<Rightarrow> GlobalMemory \<Rightarrow> bool \<times> GlobalMemory" where
  "GlobalMemory_write address bytes m =
     (if address + bytes > mem_size m then (False, m)
      else (True, m\<lparr>access_count := access_count m + 1,
                     write_count := write_count m + 1,
                     bytes_written := bytes_written m + bytes\<rparr>))"

definition GlobalMemory_reset :: "GlobalMemory \<Rightarrow> GlobalMemory" where
  "GlobalMemory_reset m =
     m\<lparr>access_count := 0, read_count := 0, write_count := 0, bytes_read := 0,
       bytes_written := 0, global_data := replicate (length (global_data m)) 0\<rparr>"

record SharedMemory = Memory +
  shared_data :: "8 word list"
  owner_block :: BlockID

definition new_SharedMemory :: "size_t \<Rightarrow> SharedMemory" where
  "new_SharedMemory sz =
     \<lparr>mem_size = sz, latency_cycles = 4, access_count = 0,
      shared_data = replicate (unat sz) 0, owner_block = 0\<rparr>"

definition SharedMemory_read :: "MemoryAddress \<Rightarrow> size_t \<Rightarrow> SharedMemory \<Rightarrow> bool \<times> SharedMemory" where
  "SharedMemory_read address bytes m =
     (if address + bytes > mem_size m then (False, m)
      else (True, m\<lparr>access_count := access_count m + 1\<rparr>))"

definition SharedMemory_write :: "MemoryAddress \<Rightarrow> size_t \<Rightarrow> SharedMemory \<Rightarrow> bool \<times> SharedMemory" where
  "SharedMemory_write address bytes m =
     (if address + bytes > mem_size m then (False, m)
      else (True, m\<lparr>access_count := access_count m + 1\<rparr>))"

definition SharedMemory_setOwner :: "BlockID \<Rightarrow> SharedMemory \<Rightarrow> SharedMemory" where
  "SharedMemory_setOwner bid m = m\<lparr>owner_block := bid\<rparr>"

record RegisterFile =
  registers :: "32 word list"
  owner_thread :: ThreadID
  num_registers :: size_t

definition new_RegisterFile :: "size_t \<Rightarrow> RegisterFile" where
  "new_RegisterFile num_regs =
     \<lparr>registers = replicate (unat num_regs) 0, owner_thread = 0, num_registers = num_regs\<rparr>"

definition readRegister :: "size_t \<Rightarrow> RegisterFile \<Rightarrow> 32 word option" where
  "readRegister reg_index rf =
     (if reg_index \<ge> num_registers rf then None else Some (registers rf ! unat reg_index))"

definition writeRegister :: "size_t \<Rightarrow> 32 word \<Rightarrow> RegisterFile \<Rightarrow> bool \<times> RegisterFile" where
  "writeRegister reg_index v rf =
     (if reg_index \<ge> num_registers rf then (False, rf)
      else (True, rf\<lparr>registers := (registers rf)[unat reg_index := v]\<rparr>))"

definition RegisterFile_setOwner :: "ThreadID \<Rightarrow> RegisterFile \<Rightarrow> RegisterFile" where
  "RegisterFile_setOwner tid rf = rf\<lparr>owner_thread := tid\<rparr>"

text \<open>
  The memory controller owns the global memory through a shared pointer; the compute
  units only read its latency through the controller.
\<close>

record MemoryController =
  global_memory :: GlobalMemory
  total_memory_ops :: uint64_t
  cache_hits :: uint64_t
  cache_misses :: uint64_t

definition new_MemoryController :: MemoryController where
  "new_MemoryController =
     \<lparr>global_memory = new_GlobalMemory GLOBAL_MEMORY_SIZE,
      total_memory_ops = 0, cache_hits = 0, cache_misses = 0\<rparr>"

definition recordMemoryOp :: "MemoryController \<Rightarrow> MemoryController" where
  "recordMemoryOp mc = mc\<lparr>total_memory_ops := total_memory_ops mc + 1\<rparr>"

definition recordCacheHit :: "MemoryController \<Rightarrow> MemoryController" where
  "recordCacheHit mc = mc\<lparr>cache_hits := cache_hits mc + 1\<rparr>"

definition recordCacheMiss :: "MemoryController \<Rightarrow> MemoryController" where
  "recordCacheMiss mc = mc\<lparr>cache_misses := cache_misses mc + 1\<rparr>"

section \<open>Threads, warps and thread blocks (warp.h, warp.cpp)\<close>

record Thread =
  thread_id :: ThreadID
  thread_warp_id :: WarpID
  thread_block_id :: BlockID
  thread_state :: ExecutionState
  thread_registers :: RegisterFile

definition new_Thread :: "ThreadID \<Rightarrow> WarpID \<Rightarrow> BlockID \<Rightarrow> Thread" where
  "new_Thread tid wid bid =
     \<lparr>thread_id = tid, thread_warp_id = wid, thread_block_id = bid, thread_state = READY,
      thread_registers = RegisterFile_setOwner tid (new_RegisterFile REGISTERS_PER_THREAD)\<rparr>"

record Warp =
  warp_id :: WarpID
  warp_block_id :: BlockID
  threads :: "Thread list"
  warp_state :: ExecutionState
  program_counter :: size_t
  active_mask :: size_t
  warp_instructions_executed :: uint64_t
  warp_cycles_stalled :: uint64_t

text \<open>
  The constructor \<open>Warp(wid, bid, num_threads)\<close>. The thread id is computed in
  \<open>size_t\<close> (\<open>bid * MAX_THREADS_PER_BLOCK + wid * WARP_SIZE + i\<close>) and then truncated to
  the 32-bit \<open>ThreadID\<close>. The mask is \<open>(1ULL << num_threads) - 1\<close>; the only caller
  passes at most 32 threads.
\<close>

definition new_Warp :: "WarpID \<Rightarrow> BlockID \<Rightarrow> size_t \<Rightarrow> Warp" where
  "new_Warp wid bid num_threads =
     \<lparr>warp_id = wid, warp_block_id = bid,
      threads = map (\<lambda>i. new_Thread
                        (ucast ((ucast bid :: size_t) * MAX_THREADS_PER_BLOCK
                                + (ucast wid :: size_t) * WARP_SIZE + (of_nat i :: size_t)))
                        wid bid)
                  [0..<unat num_threads],
      warp_state = READY,
      program_counter = 0,
      active_mask = push_bit (unat num_threads) 1 - 1,
      warp_instructions_executed = 0,
      warp_cycles_stalled = 0\<rparr>"

definition getNumThreads :: "Warp \<Rightarrow> nat" where
  "getNumThreads w = length (threads w)"

definition incrementPC :: "Warp \<Rightarrow> Warp" where
  "incrementPC w = w\<lparr>program_counter := program_counter w + 1\<rparr>"

definition recordInstruction :: "Warp \<Rightarrow> Warp" where
  "recordInstruction w = w\<lparr>warp_instructions_executed := warp_instructions_executed w + 1\<rparr>"

definition recordStall :: "Warp \<Rightarrow> Warp" where
  "recordStall w = w\<lparr>warp_cycles_stalled := warp_cycles_stalled w + 1\<rparr>"

definition Warp_setState :: "ExecutionState \<Rightarrow> Warp \<Rightarrow> Warp" where
  "Warp_setState st w = w\<lparr>warp_state := st\<rparr>"

text \<open>
  A thread block owns its warps. In a workload the warps are held by value
  (\<open>Warp ThreadBlock\<close>). Inside a compute unit the ready queue holds raw pointers to
  the warps of the active blocks, so there a block lists the addresses of its warps
  (\<open>warp_ptr ThreadBlock\<close>) and the warps live in a store.
\<close>

record 'w ThreadBlock =
  block_id :: BlockID
  warps :: "'w list"
  shared_memory :: SharedMemory
  block_state :: ExecutionState
  grid_x :: size_t
  grid_y :: size_t
  grid_z :: size_t
  block_completed :: bool

text \<open>
  The constructor \<open>ThreadBlock(bid, num_threads)\<close>: \<open>(num_threads + 31) / 32\<close> warps,
  warp \<open>i\<close> with \<open>min(32, num_threads - 32 i)\<close> threads. The loop index is a \<open>size_t\<close>
  that is truncated to the 32-bit \<open>WarpID\<close>.
\<close>

definition ThreadBlock_num_warps :: "size_t \<Rightarrow> size_t" where
  "ThreadBlock_num_warps num_threads = (num_threads + WARP_SIZE - 1) div WARP_SIZE"

definition new_ThreadBlock :: "BlockID \<Rightarrow> size_t \<Rightarrow> Warp ThreadBlock" where
  "new_ThreadBlock bid num_threads =
     \<lparr>block_id = bid,
      warps = map (\<lambda>i. new_Warp (ucast (of_nat i :: size_t)) bid
                          (min WARP_SIZE (num_threads - (of_nat i :: size_t) * WARP_SIZE)))
                [0..<unat (ThreadBlock_num_warps num_threads)],
      shared_memory = SharedMemory_setOwner bid (new_SharedMemory SHARED_MEMORY_PER_BLOCK),
      block_state = READY,
      grid_x = 0, grid_y = 0, grid_z = 0,
      block_completed = False\<rparr>"

definition getNumWarps :: "'w ThreadBlock \<Rightarrow> nat" where
  "getNumWarps b = length (warps b)"

definition setGridPosition :: "size_t \<Rightarrow> size_t \<Rightarrow> size_t \<Rightarrow> 'w ThreadBlock \<Rightarrow> 'w ThreadBlock" where
  "setGridPosition x y z b = b\<lparr>grid_x := x, grid_y := y, grid_z := z\<rparr>"

definition markCompleted :: "'w ThreadBlock \<Rightarrow> 'w ThreadBlock" where
  "markCompleted b = b\<lparr>block_completed := True\<rparr>"

section \<open>Workloads (workload.h, workload.cpp)\<close>

record KernelConfig =
  grid_dim_x :: size_t
  grid_dim_y :: size_t
  grid_dim_z :: size_t
  block_dim_x :: size_t
  block_dim_y :: size_t
  block_dim_z :: size_t

definition new_KernelConfig ::
  "size_t \<Rightarrow> size_t \<Rightarrow> size_t \<Rightarrow> size_t \<Rightarrow> size_t \<Rightarrow> size_t \<Rightarrow> KernelConfig" where
  "new_KernelConfig gx gy gz bx bY bz =
     \<lparr>grid_dim_x = gx, grid_dim_y = gy, grid_dim_z = gz,
      block_dim_x = bx, block_dim_y = bY, block_dim_z = bz\<rparr>"

definition default_KernelConfig :: KernelConfig where
  "default_KernelConfig = new_KernelConfig 1 1 1 256 1 1"

definition getTotalBlocks :: "KernelConfig \<Rightarrow> size_t" where
  "getTotalBlocks c = grid_dim_x c * grid_dim_y c * grid_dim_z c"

definition getThreadsPerBlock :: "KernelConfig \<Rightarrow> size_t" where
  "getThreadsPerBlock c = block_dim_x c * block_dim_y c * block_dim_z c"

definition getTotalThreads :: "KernelConfig \<Rightarrow> size_t" where
  "getTotalThreads c = getTotalBlocks c * getThreadsPerBlock c"

text \<open>
  The workload object. \<open>priority\<close> is a C++ \<open>int\<close> that is only stored and compared.
  The two time stamps (\<open>start_time_\<close>, \<open>end_time_\<close>) are readings of the wall clock and
  are left out.
\<close>

record Workload =
  name :: string
  workload_type :: WorkloadType
  config :: KernelConfig
  priority :: int
  estimated_instructions :: size_t
  estimated_memory_ops :: size_t
  workload_completed :: bool
  thread_blocks :: "Warp ThreadBlock list"

definition new_Workload :: "string \<Rightarrow> WorkloadType \<Rightarrow> KernelConfig \<Rightarrow> Workload" where
  "new_Workload n t c =
     \<lparr>name = n, workload_type = t, config = c, priority = 0,
      estimated_instructions = 0, estimated_memory_ops = 0,
      workload_completed = False, thread_blocks = []\<rparr>"

definition setPriority :: "int \<Rightarrow> Workload \<Rightarrow> Workload" where
  "setPriority p w = w\<lparr>priority := p\<rparr>"

definition setEstimatedInstructions :: "size_t \<Rightarrow> Workload \<Rightarrow> Workload" where
  "setEstimatedInstructions n w = w\<lparr>estimated_instructions := n\<rparr>"

definition setEstimatedMemoryOps :: "size_t \<Rightarrow> Workload \<Rightarrow> Workload" where
  "setEstimatedMemoryOps n w = w\<lparr>estimated_memory_ops := n\<rparr>"

text \<open>
  One iteration of the loop of \<open>generateThreadBlocks\<close>, for the loop index \<open>i\<close> (a
  \<open>size_t\<close>, truncated to the 32-bit \<open>BlockID\<close> by the constructor call). The loop body
  runs only when \<open>getTotalBlocks\<close> is not 0, and then neither divisor is 0.
\<close>

definition make_block :: "KernelConfig \<Rightarrow> size_t \<Rightarrow> Warp ThreadBlock" where
  "make_block c i =
     (let threads_per_block = getThreadsPerBlock c;
          block = new_ThreadBlock (ucast i) threads_per_block;
          grid_xy = grid_dim_x c * grid_dim_y c;
          z = i div grid_xy;
          remaining = i mod grid_xy;
          y = remaining div grid_dim_x c;
          x = remaining mod grid_dim_x c
      in setGridPosition x y z block)"

definition generateThreadBlocks :: "Workload \<Rightarrow> Workload" where
  "generateThreadBlocks w =
     w\<lparr>thread_blocks :=
         fold (\<lambda>i blocks. blocks @ [make_block (config w) (of_nat i)])
           [0..<unat (getTotalBlocks (config w))] []\<rparr>"

definition getNextBlock :: "Workload \<Rightarrow> Warp ThreadBlock option \<times> Workload" where
  "getNextBlock w =
     (if thread_blocks w = [] then (None, w)
      else (Some (last (thread_blocks w)), w\<lparr>thread_blocks := butlast (thread_blocks w)\<rparr>))"

definition hasMoreBlocks :: "Workload \<Rightarrow> bool" where
  "hasMoreBlocks w = (thread_blocks w \<noteq> [])"

definition getRemainingBlocks :: "Workload \<Rightarrow> nat" where
  "getRemainingBlocks w = length (thread_blocks w)"

text \<open>Draining a workload with \<open>getNextBlock\<close> until it returns nothing.\<close>

function drain_blocks :: "Workload \<Rightarrow> Warp ThreadBlock list" where
  "drain_blocks w =
     (case getNextBlock w of
        (None, w') \<Rightarrow> []
      | (Some b, w') \<Rightarrow> b # drain_blocks w')"
  by pat_completeness auto
termination
  by (relation "measure (\<lambda>w. length (thread_blocks w))")
     (auto simp: getNextBlock_def split: if_splits)

text \<open>\<open>std::to_string\<close> of an unsigned value: its decimal digits.\<close>

function to_string :: "nat \<Rightarrow> string" where
  "to_string n =
     (if n < 10 then [char_of (48 + n)]
      else to_string (n div 10) @ [char_of (48 + n mod 10)])"
  by pat_completeness auto
termination
  by (relation "measure id") auto

definition createMatrixMultiply :: "size_t \<Rightarrow> size_t \<Rightarrow> size_t \<Rightarrow> Workload" where
  "createMatrixMultiply M N K =
     (let grid_x = (M + 15) div 16;
          grid_y = (N + 15) div 16;
          cfg = new_KernelConfig grid_x grid_y 1 16 16 1;
          workload = new_Workload
            (''MatrixMultiply_'' @ to_string (unat M) @ ''x'' @ to_string (unat N) @ ''x''
               @ to_string (unat K))
            MATRIX_MULTIPLY cfg
      in setEstimatedMemoryOps (M * N * (K + 2))
           (setEstimatedInstructions (M * N * K * 2) workload))"

definition createConvolution :: "size_t \<Rightarrow> size_t \<Rightarrow> size_t \<Rightarrow> size_t \<Rightarrow> Workload" where
  "createConvolution batch channels height width =
     (let total_outputs = batch * channels * height * width;
          threads_per_block = 256;
          num_blocks = (total_outputs + threads_per_block - 1) div threads_per_block;
          cfg = new_KernelConfig num_blocks 1 1 threads_per_block 1 1;
          workload = new_Workload
            (''Convolution_'' @ to_string (unat batch) @ ''x'' @ to_string (unat channels) @ ''x''
               @ to_string (unat height) @ ''x'' @ to_string (unat width))
            CONVOLUTION cfg
      in setEstimatedMemoryOps (total_outputs * 10)
           (setEstimatedInstructions (total_outputs * 9 * 2) workload))"

definition createVectorAdd :: "size_t \<Rightarrow> Workload" where
  "createVectorAdd sz =
     (let threads_per_block = 256;
          num_blocks = (sz + threads_per_block - 1) div threads_per_block;
          cfg = new_KernelConfig num_blocks 1 1 threads_per_block 1 1;
          workload = new_Workload (''VectorAdd_'' @ to_string (unat sz)) VECTOR_ADD cfg
      in setEstimatedMemoryOps (sz * 3) (setEstimatedInstructions (sz * 2) workload))"

text \<open>
  \<open>createReduction\<close> computes \<open>steps = static_cast<size_t>(std::log2(size))\<close>: the size
  is converted to a double, the library takes its binary logarithm in floating point
  and the result is truncated. This computation is not part of the repository; it is
  the parameter \<open>log2_steps\<close>.
\<close>

definition createReduction :: "(size_t \<Rightarrow> size_t) \<Rightarrow> size_t \<Rightarrow> Workload" where
  "createReduction log2_steps sz =
     (let threads_per_block = 256;
          num_blocks = (sz + threads_per_block - 1) div threads_per_block;
          cfg = new_KernelConfig num_blocks 1 1 threads_per_block 1 1;
          workload = new_Workload (''Reduction_'' @ to_string (unat sz)) REDUCTION cfg;
          steps = log2_steps sz
      in setEstimatedMemoryOps (sz * 2) (setEstimatedInstructions (sz * steps) workload))"

text \<open>
  Two workloads used to exercise block generation: a 2 x 2 grid of blocks of 40
  threads, and a grid of \<open>2\<^sup>3\<^sup>2\<close> by \<open>2\<^sup>3\<^sup>2\<close> blocks.
\<close>

definition sample_workload :: Workload where
  "sample_workload = new_Workload ''sample'' CUSTOM (new_KernelConfig 2 2 1 40 1 1)"

definition wide_grid_workload :: Workload where
  "wide_grid_workload =
     new_Workload ''wide'' CUSTOM (new_KernelConfig 4294967296 4294967296 1 1 1 1)"

text \<open>A workload of \<open>2\<^sup>3\<^sup>2 + 1\<close> blocks in a row, one more than there are block ids.\<close>

definition long_grid_workload :: Workload where
  "long_grid_workload =
     new_Workload ''long'' CUSTOM (new_KernelConfig 4294967297 1 1 1 1 1)"

section \<open>Kernel-level schedulers (scheduler.h, scheduler.cpp)\<close>

text \<open>
  The scheduler's buckets hold \<open>std::shared_ptr<Workload>\<close>; \<open>std::find\<close> compares the
  pointers, so a kernel is identified by the address of its \<open>Workload\<close> object. The two
  fields of the workload that a policy reads through the pointer (\<open>getPriority\<close>, an
  \<open>int\<close> that is only compared, and \<open>getEstimatedInstructions\<close>, a \<open>size_t\<close>) are
  read from a view of the workload objects at the time of the call.
\<close>

type_synonym wl_ptr = nat

type_synonym wl_heap = "wl_ptr \<Rightarrow> Workload"

record Scheduler =
  pending_workloads :: "wl_ptr list"
  running_workloads :: "wl_ptr list"
  completed_workloads :: "wl_ptr list"

record RoundRobinScheduler = Scheduler +
  current_index :: nat

text \<open>\<open>v.erase(v.begin() + i)\<close> for an index inside the vector.\<close>

definition erase_at :: "nat \<Rightarrow> 'a list \<Rightarrow> 'a list" where
  "erase_at i xs = take i xs @ drop (Suc i) xs"

definition addWorkload :: "wl_ptr \<Rightarrow> 'a Scheduler_scheme \<Rightarrow> 'a Scheduler_scheme" where
  "addWorkload w s = s\<lparr>pending_workloads := pending_workloads s @ [w]\<rparr>"

definition hasPendingWorkloads :: "'a Scheduler_scheme \<Rightarrow> bool" where
  "hasPendingWorkloads s = (pending_workloads s \<noteq> [])"

definition getPendingCount :: "'a Scheduler_scheme \<Rightarrow> nat" where
  "getPendingCount s = length (pending_workloads s)"

definition getRunningCount :: "'a Scheduler_scheme \<Rightarrow> nat" where
  "getRunningCount s = length (running_workloads s)"

definition getCompletedCount :: "'a Scheduler_scheme \<Rightarrow> nat" where
  "getCompletedCount s = length (completed_workloads s)"

text \<open>\<open>std::find\<close> stops at the first occurrence, which \<open>erase\<close> then removes.\<close>

definition markWorkloadRunning :: "wl_ptr \<Rightarrow> 'a Scheduler_scheme \<Rightarrow> 'a Scheduler_scheme" where
  "markWorkloadRunning w s =
     (if w \<in> set (pending_workloads s)
      then s\<lparr>pending_workloads := remove1 w (pending_workloads s),
             running_workloads := running_workloads s @ [w]\<rparr>
      else s)"

definition markWorkloadCompleted :: "wl_ptr \<Rightarrow> 'a Scheduler_scheme \<Rightarrow> 'a Scheduler_scheme" where
  "markWorkloadCompleted w s =
     (if w \<in> set (running_workloads s)
      then s\<lparr>running_workloads := remove1 w (running_workloads s),
             completed_workloads := completed_workloads s @ [w]\<rparr>
      else s)"

text \<open>
  Every \<open>getNextWorkload\<close> returns the chosen pointer (\<open>None\<close> for \<open>nullptr\<close>) and the
  scheduler after the call. This helper is the common tail of the four policies: take
  the element at position \<open>i\<close> out of pending and push it onto running.
\<close>

definition dispatch_at :: "nat \<Rightarrow> 'a Scheduler_scheme \<Rightarrow> wl_ptr option \<times> 'a Scheduler_scheme" where
  "dispatch_at i s =
     (let workload = pending_workloads s ! i
      in (Some workload,
          s\<lparr>pending_workloads := erase_at i (pending_workloads s),
            running_workloads := running_workloads s @ [workload]\<rparr>))"

definition FIFO_getNextWorkload :: "'a Scheduler_scheme \<Rightarrow> wl_ptr option \<times> 'a Scheduler_scheme" where
  "FIFO_getNextWorkload s =
     (if pending_workloads s = [] then (None, s) else dispatch_at 0 s)"

text \<open>
  \<open>std::max_element(first, last, comp)\<close>: \<open>largest\<close> starts at the first element and
  moves to a later element only when \<open>comp(*largest, *it)\<close> holds. The result is an
  index; the function is only called on a non-empty range.
\<close>

definition max_element :: "('a \<Rightarrow> 'a \<Rightarrow> bool) \<Rightarrow> 'a list \<Rightarrow> nat" where
  "max_element cmp xs =
     fold (\<lambda>i largest. if cmp (xs ! largest) (xs ! i) then i else largest) [1..<length xs] 0"

text \<open>\<open>std::min_element\<close>: \<open>smallest\<close> moves when \<open>comp(*it, *smallest)\<close> holds.\<close>

definition min_element :: "('a \<Rightarrow> 'a \<Rightarrow> bool) \<Rightarrow> 'a list \<Rightarrow> nat" where
  "min_element cmp xs =
     fold (\<lambda>i smallest. if cmp (xs ! i) (xs ! smallest) then i else smallest) [1..<length xs] 0"

definition Priority_getNextWorkload ::
  "wl_heap \<Rightarrow> 'a Scheduler_scheme \<Rightarrow> wl_ptr option \<times> 'a Scheduler_scheme" where
  "Priority_getNextWorkload h s =
     (if pending_workloads s = [] then (None, s)
      else dispatch_at
             (max_element (\<lambda>a b. priority (h a) < priority (h b)) (pending_workloads s)) s)"

definition RoundRobin_getNextWorkload ::
  "'a RoundRobinScheduler_scheme \<Rightarrow> wl_ptr option \<times> 'a RoundRobinScheduler_scheme" where
  "RoundRobin_getNextWorkload s =
     (if pending_workloads s = [] then (None, s)
      else let s1 = s\<lparr>current_index := current_index s mod length (pending_workloads s)\<rparr>
           in dispatch_at (current_index s1) s1)"

definition ShortestJobFirst_getNextWorkload ::
  "wl_heap \<Rightarrow> 'a Scheduler_scheme \<Rightarrow> wl_ptr option \<times> 'a Scheduler_scheme" where
  "ShortestJobFirst_getNextWorkload h s =
     (if pending_workloads s = [] then (None, s)
      else dispatch_at
             (min_element (\<lambda>a b. estimated_instructions (h a) < estimated_instructions (h b))
                (pending_workloads s)) s)"

text \<open>The four scheduler classes behind the \<open>Scheduler\<close> interface, and the factory.\<close>

datatype scheduler_obj =
    FIFO_Scheduler Scheduler
  | Priority_Scheduler Scheduler
  | RoundRobin_Scheduler RoundRobinScheduler
  | ShortestJobFirst_Scheduler Scheduler

definition empty_Scheduler :: Scheduler where
  "empty_Scheduler = \<lparr>pending_workloads = [], running_workloads = [], completed_workloads = []\<rparr>"

definition new_RoundRobinScheduler :: RoundRobinScheduler where
  "new_RoundRobinScheduler =
     \<lparr>pending_workloads = [], running_workloads = [], completed_workloads = [],
      current_index = 0\<rparr>"

fun createScheduler :: "SchedulingAlgorithm \<Rightarrow> scheduler_obj" where
  "createScheduler FIFO = FIFO_Scheduler empty_Scheduler"
| "createScheduler PRIORITY = Priority_Scheduler empty_Scheduler"
| "createScheduler ROUND_ROBIN = RoundRobin_Scheduler new_RoundRobinScheduler"
| "createScheduler SHORTEST_JOB_FIRST = ShortestJobFirst_Scheduler empty_Scheduler"

fun pending_of :: "scheduler_obj \<Rightarrow> wl_ptr list" where
  "pending_of (FIFO_Scheduler s) = pending_workloads s"
| "pending_of (Priority_Scheduler s) = pending_workloads s"
| "pending_of (RoundRobin_Scheduler s) = pending_workloads s"
| "pending_of (ShortestJobFirst_Scheduler s) = pending_workloads s"

fun running_of :: "scheduler_obj \<Rightarrow> wl_ptr list" where
  "running_of (FIFO_Scheduler s) = running_workloads s"
| "running_of (Priority_Scheduler s) = running_workloads s"
| "running_of (RoundRobin_Scheduler s) = running_workloads s"
| "running_of (ShortestJobFirst_Scheduler s) = running_workloads s"

fun completed_of :: "scheduler_obj \<Rightarrow> wl_ptr list" where
  "completed_of (FIFO_Scheduler s) = completed_workloads s"
| "completed_of (Priority_Scheduler s) = completed_workloads s"
| "completed_of (RoundRobin_Scheduler s) = completed_workloads s"
| "completed_of (ShortestJobFirst_Scheduler s) = completed_workloads s"

text \<open>The methods, called through the \<open>Scheduler\<close> interface.\<close>

fun sched_addWorkload :: "wl_ptr \<Rightarrow> scheduler_obj \<Rightarrow> scheduler_obj" where
  "sched_addWorkload w (FIFO_Scheduler s) = FIFO_Scheduler (addWorkload w s)"
| "sched_addWorkload w (Priority_Scheduler s) = Priority_Scheduler (addWorkload w s)"
| "sched_addWorkload w (RoundRobin_Scheduler s) = RoundRobin_Scheduler (addWorkload w s)"
| "sched_addWorkload w (ShortestJobFirst_Scheduler s) = ShortestJobFirst_Scheduler (addWorkload w s)"

fun sched_markWorkloadRunning :: "wl_ptr \<Rightarrow> scheduler_obj \<Rightarrow> scheduler_obj" where
  "sched_markWorkloadRunning w (FIFO_Scheduler s) = FIFO_Scheduler (markWorkloadRunning w s)"
| "sched_markWorkloadRunning w (Priority_Scheduler s) = Priority_Scheduler (markWorkloadRunning w s)"
| "sched_markWorkloadRunning w (RoundRobin_Scheduler s) = RoundRobin_Scheduler (markWorkloadRunning w s)"
| "sched_markWorkloadRunning w (ShortestJobFirst_Scheduler s) =
     ShortestJobFirst_Scheduler (markWorkloadRunning w s)"

fun sched_markWorkloadCompleted :: "wl_ptr \<Rightarrow> scheduler_obj \<Rightarrow> scheduler_obj" where
  "sched_markWorkloadCompleted w (FIFO_Scheduler s) = FIFO_Scheduler (markWorkloadCompleted w s)"
| "sched_markWorkloadCompleted w (Priority_Scheduler s) = Priority_Scheduler (markWorkloadCompleted w s)"
| "sched_markWorkloadCompleted w (RoundRobin_Scheduler s) =
     RoundRobin_Scheduler (markWorkloadCompleted w s)"
| "sched_markWorkloadCompleted w (ShortestJobFirst_Scheduler s) =
     ShortestJobFirst_Scheduler (markWorkloadCompleted w s)"

fun sched_getNextWorkload :: "wl_heap \<Rightarrow> scheduler_obj \<Rightarrow> wl_ptr option \<times> scheduler_obj" where
  "sched_getNextWorkload h (FIFO_Scheduler s) = map_prod id FIFO_Scheduler (FIFO_getNextWorkload s)"
| "sched_getNextWorkload h (Priority_Scheduler s) =
     map_prod id Priority_Scheduler (Priority_getNextWorkload h s)"
| "sched_getNextWorkload h (RoundRobin_Scheduler s) =
     map_prod id RoundRobin_Scheduler (RoundRobin_getNextWorkload s)"
| "sched_getNextWorkload h (ShortestJobFirst_Scheduler s) =
     map_prod id ShortestJobFirst_Scheduler (ShortestJobFirst_getNextWorkload h s)"

text \<open>
  A sequence of calls on one scheduler. \<open>GetNextWorkload\<close> carries the view of the
  workload objects at the time of the call, since priorities and estimates can be set
  between calls.
\<close>

datatype sched_op =
    AddWorkload wl_ptr
  | GetNextWorkload wl_heap
  | MarkWorkloadRunning wl_ptr
  | MarkWorkloadCompleted wl_ptr

fun sched_step :: "sched_op \<Rightarrow> scheduler_obj \<Rightarrow> scheduler_obj" where
  "sched_step (AddWorkload w) s = sched_addWorkload w s"
| "sched_step (GetNextWorkload h) s = snd (sched_getNextWorkload h s)"
| "sched_step (MarkWorkloadRunning w) s = sched_markWorkloadRunning w s"
| "sched_step (MarkWorkloadCompleted w) s = sched_markWorkloadCompleted w s"

definition sched_run :: "sched_op list \<Rightarrow> scheduler_obj \<Rightarrow> scheduler_obj" where
  "sched_run ops s = fold sched_step ops s"

fun is_submission :: "sched_op \<Rightarrow> bool" where
  "is_submission (AddWorkload w) = True"
| "is_submission _ = False"

definition submitted :: "sched_op list \<Rightarrow> nat" where
  "submitted ops = length (filter is_submission ops)"

definition bucket_total :: "scheduler_obj \<Rightarrow> nat" where
  "bucket_total s = length (pending_of s) + length (running_of s) + length (completed_of s)"

text \<open>The successive results of \<open>n\<close> calls of \<open>getNextWorkload\<close>.\<close>

fun dispatch_order :: "nat \<Rightarrow> wl_heap \<Rightarrow> scheduler_obj \<Rightarrow> wl_ptr option list" where
  "dispatch_order 0 h s = []"
| "dispatch_order (Suc n) h s =
     (case sched_getNextWorkload h s of (r, s') \<Rightarrow> r # dispatch_order n h s')"

text \<open>
  The seed of the policy tests: kernels A (priority 1, estimate 1000), B (5, 500),
  C (3, 200) and D (5, 900), at the addresses 0, 1, 2 and 3, submitted in this order.
\<close>

definition seed_workload :: "string \<Rightarrow> int \<Rightarrow> size_t \<Rightarrow> Workload" where
  "seed_workload n p e =
     setEstimatedInstructions e (setPriority p (new_Workload n CUSTOM default_KernelConfig))"

definition seed_heap :: wl_heap where
  "seed_heap p =
     (if p = 0 then seed_workload ''A'' 1 1000
      else if p = 1 then seed_workload ''B'' 5 500
      else if p = 2 then seed_workload ''C'' 3 200
      else seed_workload ''D'' 5 900)"

definition seed_scheduler :: "SchedulingAlgorithm \<Rightarrow> scheduler_obj" where
  "seed_scheduler alg =
     sched_run [AddWorkload 0, AddWorkload 1, AddWorkload 2, AddWorkload 3] (createScheduler alg)"

definition dispatched_names :: "wl_heap \<Rightarrow> wl_ptr option list \<Rightarrow> string list" where
  "dispatched_names h rs = map (\<lambda>r. case r of None \<Rightarrow> ''none'' | Some p \<Rightarrow> name (h p)) rs"

definition seed_pending :: Scheduler where
  "seed_pending =
     \<lparr>pending_workloads = [0, 1, 2, 3], running_workloads = [], completed_workloads = []\<rparr>"

definition seed_round_robin :: RoundRobinScheduler where
  "seed_round_robin =
     \<lparr>pending_workloads = [0, 1, 2, 3], running_workloads = [], completed_workloads = [],
      current_index = 0\<rparr>"

section \<open>Warp scheduler and compute unit (compute_unit.h, compute_unit.cpp)\<close>

text \<open>
  The ready queue of a compute unit holds raw pointers to warps that are owned by the
  active blocks, and \<open>executeWarp\<close> updates a warp through such a pointer. A warp is
  therefore named by its address; the warps live in a store, and the blocks of a
  compute unit list the addresses of their warps. A null pointer is \<open>None\<close>.
\<close>

type_synonym warp_ptr = nat

type_synonym warp_store = "warp_ptr \<Rightarrow> Warp"

record WarpScheduler =
  ready_queue :: "warp_ptr list"
  max_warps :: nat

definition new_WarpScheduler :: "nat \<Rightarrow> WarpScheduler" where
  "new_WarpScheduler n = \<lparr>ready_queue = [], max_warps = n\<rparr>"

definition addWarp :: "warp_store \<Rightarrow> warp_ptr option \<Rightarrow> WarpScheduler \<Rightarrow> bool \<times> WarpScheduler" where
  "addWarp st warp ws =
     (if length (ready_queue ws) \<ge> max_warps ws then (False, ws)
      else case warp of
             Some p \<Rightarrow>
               if warp_state (st p) = READY
               then (True, ws\<lparr>ready_queue := ready_queue ws @ [p]\<rparr>)
               else (False, ws)
           | None \<Rightarrow> (False, ws))"

definition getNextWarp :: "WarpScheduler \<Rightarrow> warp_ptr option \<times> WarpScheduler" where
  "getNextWarp ws =
     (case ready_queue ws of
        [] \<Rightarrow> (None, ws)
      | p # rest \<Rightarrow> (Some p, ws\<lparr>ready_queue := rest\<rparr>))"

definition hasReadyWarps :: "WarpScheduler \<Rightarrow> bool" where
  "hasReadyWarps ws = (ready_queue ws \<noteq> [])"

definition getQueueSize :: "WarpScheduler \<Rightarrow> nat" where
  "getQueueSize ws = length (ready_queue ws)"

text \<open>
  The compute unit. The memory controller is shared between the device and all
  compute units, so it is not a field here but a component of the state that the
  methods act on. The constructor does not initialise \<open>cycles_stalled_\<close>; its initial
  value is a parameter.
\<close>

record ComputeUnit =
  core_id :: CoreID
  active_blocks :: "warp_ptr ThreadBlock list"
  warp_scheduler :: WarpScheduler
  max_warps_per_cu :: nat
  max_threads_per_cu :: nat
  max_blocks_per_cu :: nat
  cu_state :: ExecutionState
  running :: bool
  cycles_executed :: uint64_t
  instructions_executed :: uint64_t
  warps_executed :: uint64_t
  idle_cycles :: uint64_t
  cycles_stalled :: uint64_t

definition new_ComputeUnit :: "CoreID \<Rightarrow> uint64_t \<Rightarrow> ComputeUnit" where
  "new_ComputeUnit cid stalled0 =
     \<lparr>core_id = cid, active_blocks = [], warp_scheduler = new_WarpScheduler 64,
      max_warps_per_cu = 64, max_threads_per_cu = 2048, max_blocks_per_cu = 16,
      cu_state = IDLE, running = False,
      cycles_executed = 0, instructions_executed = 0, warps_executed = 0, idle_cycles = 0,
      cycles_stalled = stalled0\<rparr>"

record cu_system =
  warps_at :: warp_store
  controller :: MemoryController
  cu :: ComputeUnit

definition on_warp :: "warp_ptr \<Rightarrow> (Warp \<Rightarrow> Warp) \<Rightarrow> cu_system \<Rightarrow> cu_system" where
  "on_warp p f s = s\<lparr>warps_at := (warps_at s)(p := f (warps_at s p))\<rparr>"

definition on_cu :: "(ComputeUnit \<Rightarrow> ComputeUnit) \<Rightarrow> cu_system \<Rightarrow> cu_system" where
  "on_cu f s = s\<lparr>cu := f (cu s)\<rparr>"

definition getActiveWarpCount :: "ComputeUnit \<Rightarrow> nat" where
  "getActiveWarpCount c = fold (\<lambda>block count. count + getNumWarps block) (active_blocks c) 0"

definition getActiveThreadCount :: "warp_store \<Rightarrow> ComputeUnit \<Rightarrow> nat" where
  "getActiveThreadCount st c =
     fold (\<lambda>block count. fold (\<lambda>p count. count + getNumThreads (st p)) (warps block) count)
       (active_blocks c) 0"

definition canAcceptBlock :: "ComputeUnit \<Rightarrow> warp_ptr ThreadBlock option \<Rightarrow> bool" where
  "canAcceptBlock c block =
     (case block of
        None \<Rightarrow> False
      | Some b \<Rightarrow>
          if length (active_blocks c) \<ge> max_blocks_per_cu c then False
          else if getActiveWarpCount c + getNumWarps b > max_warps_per_cu c then False
          else True)"

definition assignBlock :: "warp_ptr ThreadBlock option \<Rightarrow> cu_system \<Rightarrow> bool \<times> cu_system" where
  "assignBlock block s =
     (if \<not> canAcceptBlock (cu s) block then (False, s)
      else case block of
             None \<Rightarrow> (False, s)
           | Some b \<Rightarrow>
               (True,
                on_cu (\<lambda>c. c\<lparr>warp_scheduler :=
                                 fold (\<lambda>p ws. snd (addWarp (warps_at s) (Some p) ws)) (warps b)
                                   (warp_scheduler c),
                               active_blocks := active_blocks c @ [b],
                               cu_state := RUNNING\<rparr>) s))"

definition removeCompletedBlocks :: "ComputeUnit \<Rightarrow> ComputeUnit" where
  "removeCompletedBlocks c =
     (let bs = filter (\<lambda>b. \<not> block_completed b) (active_blocks c);
          c1 = c\<lparr>active_blocks := bs\<rparr>
      in if bs = [] then c1\<lparr>cu_state := IDLE\<rparr> else c1)"

text \<open>The stall loop: one increment of \<open>cycles_executed_\<close> per iteration.\<close>

definition stall :: "cu_system \<Rightarrow> cu_system" where
  "stall s =
     fold (\<lambda>k. on_cu (\<lambda>c. c\<lparr>cycles_executed := cycles_executed c + 1\<rparr>))
       [0..<unat (latency_cycles (global_memory (controller s)) div 10)] s"

text \<open>The body of the instruction loop of \<open>executeWarp\<close>, for loop index \<open>i\<close>.\<close>

definition execute_instruction :: "warp_ptr \<Rightarrow> nat \<Rightarrow> cu_system \<Rightarrow> cu_system" where
  "execute_instruction p i s =
     (let s1 = on_warp p recordInstruction s;
          s2 = on_warp p incrementPC s1;
          s3 = on_cu (\<lambda>c. c\<lparr>instructions_executed := instructions_executed c + 1\<rparr>) s2
      in if i mod 5 = 0
         then let s4 = s3\<lparr>controller := recordMemoryOp (controller s3)\<rparr>
              in if i mod 10 = 0
                 then let s5 = on_warp p (Warp_setState MEMORY_STALLED) s4;
                          s6 = on_warp p recordStall s5;
                          s7 = on_cu (\<lambda>c. c\<lparr>cycles_stalled := cycles_stalled c + 1\<rparr>) s6;
                          s8 = stall s7
                      in on_warp p (Warp_setState RUNNING) s8
                 else s4
         else s3)"

definition executeWarp :: "warp_ptr option \<Rightarrow> size_t \<Rightarrow> cu_system \<Rightarrow> cu_system" where
  "executeWarp warp num_instructions s =
     (case warp of
        None \<Rightarrow> s
      | Some p \<Rightarrow>
          let s1 = on_warp p (Warp_setState RUNNING) s;
              s2 = fold (execute_instruction p) [0..<unat num_instructions] s1;
              s3 = on_warp p (Warp_setState READY) s2
          in on_cu (\<lambda>c. c\<lparr>warps_executed := warps_executed c + 1\<rparr>) s3)"

text \<open>The sweep over the active blocks after a warp has completed.\<close>

definition mark_done_blocks :: "warp_store \<Rightarrow> warp_ptr ThreadBlock list \<Rightarrow> warp_ptr ThreadBlock list" where
  "mark_done_blocks st bs =
     map (\<lambda>block. if list_all (\<lambda>w. warp_state (st w) = COMPLETED) (warps block)
                  then markCompleted block else block) bs"

definition simulateCycle :: "cu_system \<Rightarrow> cu_system" where
  "simulateCycle s =
     (let s1 = on_cu (\<lambda>c. c\<lparr>cycles_executed := cycles_executed c + 1\<rparr>) s;
          (warp, ws) = getNextWarp (warp_scheduler (cu s1));
          s2 = on_cu (\<lambda>c. c\<lparr>warp_scheduler := ws\<rparr>) s1
      in case warp of
           Some p \<Rightarrow>
             let s3 = executeWarp (Some p) 8 s2
             in if warp_instructions_executed (warps_at s3 p) \<ge> 1000
                then let s4 = on_warp p (Warp_setState COMPLETED) s3
                     in on_cu (\<lambda>c. c\<lparr>active_blocks := mark_done_blocks (warps_at s4) (active_blocks c)\<rparr>) s4
                else on_cu (\<lambda>c. c\<lparr>warp_scheduler :=
                                     snd (addWarp (warps_at s3) (Some p) (warp_scheduler c))\<rparr>) s3
         | None \<Rightarrow> on_cu (\<lambda>c. c\<lparr>idle_cycles := idle_cycles c + 1\<rparr>) s2)"

definition resetMetrics :: "ComputeUnit \<Rightarrow> ComputeUnit" where
  "resetMetrics c =
     c\<lparr>cycles_executed := 0, instructions_executed := 0, warps_executed := 0, idle_cycles := 0\<rparr>"

text \<open>
  A compute unit with one block of one warp (at address 0) whose warp is ready and
  queued, sharing a fresh memory controller; and a block of two warps (at addresses 1
  and 2) offered to it.
\<close>

definition sample_block :: "BlockID \<Rightarrow> warp_ptr list \<Rightarrow> warp_ptr ThreadBlock" where
  "sample_block bid ps =
     \<lparr>block_id = bid, warps = ps,
      shared_memory = SharedMemory_setOwner bid (new_SharedMemory SHARED_MEMORY_PER_BLOCK),
      block_state = READY, grid_x = 0, grid_y = 0, grid_z = 0, block_completed = False\<rparr>"

definition sample_system :: cu_system where
  "sample_system =
     \<lparr>warps_at = (\<lambda>p. new_Warp (ucast (of_nat p :: size_t)) 0 32),
      controller = new_MemoryController,
      cu = (new_ComputeUnit 0 0)
             \<lparr>active_blocks := [sample_block 0 [0]],
              warp_scheduler := \<lparr>ready_queue = [0], max_warps = 64\<rparr>,
              cu_state := RUNNING\<rparr>\<rparr>"

section \<open>Metrics (metrics.h, metrics.cpp)\<close>

text \<open>
  The \<open>double\<close> fields of the metrics records are reals here. The functions below only
  compare them; the recorded execution times are finite doubles (a count of
  microseconds divided by 1000, or 0), and finite doubles are ordered as the reals
  they denote.
\<close>

record WorkloadMetrics =
  workload_name :: string
  metrics_type :: WorkloadType
  execution_time_ms :: real
  metrics_instructions_executed :: uint64_t
  memory_operations :: uint64_t
  metrics_cycles_executed :: uint64_t
  average_cu_utilization :: real
  total_threads :: size_t
  total_blocks :: size_t
  throughput :: real

record GPUMetrics =
  total_cycles :: uint64_t
  total_instructions :: uint64_t
  total_memory_ops_recorded :: uint64_t
  total_execution_time_ms :: real
  average_utilization :: real
  memory_bandwidth_utilization :: real
  total_workloads_executed :: size_t

text \<open>
  \<open>WorkloadMetrics{}\<close>: value-initialisation gives the empty string, the first
  enumerator and zeros.
\<close>

definition default_WorkloadMetrics :: WorkloadMetrics where
  "default_WorkloadMetrics =
     \<lparr>workload_name = [], metrics_type = MATRIX_MULTIPLY, execution_time_ms = 0,
      metrics_instructions_executed = 0, memory_operations = 0, metrics_cycles_executed = 0,
      average_cu_utilization = 0, total_threads = 0, total_blocks = 0, throughput = 0\<rparr>"

definition default_GPUMetrics :: GPUMetrics where
  "default_GPUMetrics =
     \<lparr>total_cycles = 0, total_instructions = 0, total_memory_ops_recorded = 0,
      total_execution_time_ms = 0, average_utilization = 0, memory_bandwidth_utilization = 0,
      total_workloads_executed = 0\<rparr>"

record PerformanceAnalyzer =
  workload_metrics :: "WorkloadMetrics list"
  gpu_metrics :: GPUMetrics

definition new_PerformanceAnalyzer :: PerformanceAnalyzer where
  "new_PerformanceAnalyzer = \<lparr>workload_metrics = [], gpu_metrics = default_GPUMetrics\<rparr>"

definition getFastestWorkload :: "PerformanceAnalyzer \<Rightarrow> WorkloadMetrics" where
  "getFastestWorkload a =
     (if workload_metrics a = [] then default_WorkloadMetrics
      else workload_metrics a !
             min_element (\<lambda>a b. execution_time_ms a < execution_time_ms b) (workload_metrics a))"

definition getSlowestWorkload :: "PerformanceAnalyzer \<Rightarrow> WorkloadMetrics" where
  "getSlowestWorkload a =
     (if workload_metrics a = [] then default_WorkloadMetrics
      else workload_metrics a !
             max_element (\<lambda>a b. execution_time_ms a < execution_time_ms b) (workload_metrics a))"

definition PerformanceAnalyzer_reset :: "PerformanceAnalyzer \<Rightarrow> PerformanceAnalyzer" where
  "PerformanceAnalyzer_reset a = a\<lparr>workload_metrics := [], gpu_metrics := default_GPUMetrics\<rparr>"

text \<open>Three recorded workloads, used to exercise the two queries.\<close>

definition sample_metrics :: "string \<Rightarrow> real \<Rightarrow> WorkloadMetrics" where
  "sample_metrics n t = default_WorkloadMetrics\<lparr>workload_name := n, execution_time_ms := t\<rparr>"

definition sample_analyzer :: PerformanceAnalyzer where
  "sample_analyzer =
     \<lparr>workload_metrics = [sample_metrics ''m'' 7, sample_metrics ''v'' 2, sample_metrics ''r'' 9],
      gpu_metrics = default_GPUMetrics\<rparr>"

section \<open>Properties of the kernel-level schedulers\<close>

subsection \<open>\<open>std::max_element\<close> and \<open>std::min_element\<close> return the first extremal position\<close>

lemma max_element_upto:
  fixes f :: "'a \<Rightarrow> 'b::linorder"
  assumes "0 < k" "k \<le> length xs"
  defines "m \<equiv> fold (\<lambda>i largest. if f (xs ! largest) < f (xs ! i) then i else largest) [1..<k] 0"
  shows "m < k \<and> (\<forall>j<k. f (xs ! j) \<le> f (xs ! m)) \<and> (\<forall>j<m. f (xs ! j) < f (xs ! m))"
  using assms(1,2) unfolding m_def
proof (induction k)
  case 0
  then show ?case by simp
next
  case (Suc k)
  show ?case
  proof (cases "k = 0")
    case True
    then show ?thesis by simp
  next
    case False
    let ?g = "\<lambda>i largest. if f (xs ! largest) < f (xs ! i) then i else largest"
    let ?m = "fold ?g [1..<k] 0"
    from False Suc.prems have k: "0 < k" "k \<le> length xs" by simp_all
    from Suc.IH [OF k] have IH: "?m < k" "\<forall>j<k. f (xs ! j) \<le> f (xs ! ?m)"
      "\<forall>j<?m. f (xs ! j) < f (xs ! ?m)" by simp_all
    have upt: "[1..<Suc k] = [1..<k] @ [k]" using k by simp
    have step: "fold ?g [1..<Suc k] 0 = (if f (xs ! ?m) < f (xs ! k) then k else ?m)"
      unfolding upt by simp
    show ?thesis
    proof (cases "f (xs ! ?m) < f (xs ! k)")
      case True
      have lt: "\<forall>j<k. f (xs ! j) < f (xs ! k)"
      proof (intro allI impI)
        fix j assume "j < k"
        with IH(2) have "f (xs ! j) \<le> f (xs ! ?m)" by simp
        with True show "f (xs ! j) < f (xs ! k)" by simp
      qed
      have "\<forall>j<Suc k. f (xs ! j) \<le> f (xs ! k)"
      proof (intro allI impI)
        fix j assume "j < Suc k"
        then consider "j < k" | "j = k" by linarith
        then show "f (xs ! j) \<le> f (xs ! k)"
          using lt by cases (simp_all add: less_imp_le)
      qed
      moreover note lt
      ultimately show ?thesis unfolding step using True by simp
    next
      case False
      have "\<forall>j<Suc k. f (xs ! j) \<le> f (xs ! ?m)"
      proof (intro allI impI)
        fix j assume "j < Suc k"
        then consider "j < k" | "j = k" by linarith
        then show "f (xs ! j) \<le> f (xs ! ?m)"
          using IH(2) False by cases (simp_all add: not_less)
      qed
      then show ?thesis unfolding step using False IH(1,3) by simp
    qed
  qed
qed

lemma min_element_upto:
  fixes f :: "'a \<Rightarrow> 'b::linorder"
  assumes "0 < k" "k \<le> length xs"
  defines "m \<equiv> fold (\<lambda>i smallest. if f (xs ! i) < f (xs ! smallest) then i else smallest) [1..<k] 0"
  shows "m < k \<and> (\<forall>j<k. f (xs ! m) \<le> f (xs ! j)) \<and> (\<forall>j<m. f (xs ! m) < f (xs ! j))"
  using assms(1,2) unfolding m_def
proof (induction k)
  case 0
  then show ?case by simp
next
  case (Suc k)
  show ?case
  proof (cases "k = 0")
    case True
    then show ?thesis by simp
  next
    case False
    let ?g = "\<lambda>i smallest. if f (xs ! i) < f (xs ! smallest) then i else smallest"
    let ?m = "fold ?g [1..<k] 0"
    from False Suc.prems have k: "0 < k" "k \<le> length xs" by simp_all
    from Suc.IH [OF k] have IH: "?m < k" "\<forall>j<k. f (xs ! ?m) \<le> f (xs ! j)"
      "\<forall>j<?m. f (xs ! ?m) < f (xs ! j)" by simp_all
    have upt: "[1..<Suc k] = [1..<k] @ [k]" using k by simp
    have step: "fold ?g [1..<Suc k] 0 = (if f (xs ! k) < f (xs ! ?m) then k else ?m)"
      unfolding upt by simp
    show ?thesis
    proof (cases "f (xs ! k) < f (xs ! ?m)")
      case True
      have lt: "\<forall>j<k. f (xs ! k) < f (xs ! j)"
      proof (intro allI impI)
        fix j assume "j < k"
        with IH(2) have "f (xs ! ?m) \<le> f (xs ! j)" by simp
        with True show "f (xs ! k) < f (xs ! j)" by simp
      qed
      have "\<forall>j<Suc k. f (xs ! k) \<le> f (xs ! j)"
      proof (intro allI impI)
        fix j assume "j < Suc k"
        then consider "j < k" | "j = k" by linarith
        then show "f (xs ! k) \<le> f (xs ! j)"
          using lt by cases (simp_all add: less_imp_le)
      qed
      moreover note lt
      ultimately show ?thesis unfolding step using True by simp
    next
      case False
      have "\<forall>j<Suc k. f (xs ! ?m) \<le> f (xs ! j)"
      proof (intro allI impI)
        fix j assume "j < Suc k"
        then consider "j < k" | "j = k" by linarith
        then show "f (xs ! ?m) \<le> f (xs ! j)"
          using IH(2) False by cases (simp_all add: not_less)
      qed
      then show ?thesis unfolding step using False IH(1,3) by simp
    qed
  qed
qed

lemma max_element_first_max:
  fixes f :: "'a \<Rightarrow> 'b::linorder"
  assumes "xs \<noteq> []"
  shows "max_element (\<lambda>a b. f a < f b) xs < length xs"
    and "\<forall>j<length xs. f (xs ! j) \<le> f (xs ! max_element (\<lambda>a b. f a < f b) xs)"
    and "\<forall>j<max_element (\<lambda>a b. f a < f b) xs. f (xs ! j) < f (xs ! max_element (\<lambda>a b. f a < f b) xs)"
  using max_element_upto [of "length xs" xs f] assms unfolding max_element_def by simp_all

lemma min_element_first_min:
  fixes f :: "'a \<Rightarrow> 'b::linorder"
  assumes "xs \<noteq> []"
  shows "min_element (\<lambda>a b. f a < f b) xs < length xs"
    and "\<forall>j<length xs. f (xs ! min_element (\<lambda>a b. f a < f b) xs) \<le> f (xs ! j)"
    and "\<forall>j<min_element (\<lambda>a b. f a < f b) xs. f (xs ! min_element (\<lambda>a b. f a < f b) xs) < f (xs ! j)"
  using min_element_upto [of "length xs" xs f] assms unfolding min_element_def by simp_all

lemma length_erase_at: "i < length xs \<Longrightarrow> length (erase_at i xs) = length xs - 1"
  by (simp add: erase_at_def)

lemma set_erase_at: "set (erase_at i xs) \<subseteq> set xs"
  unfolding erase_at_def using set_take_subset [of i xs] set_drop_subset [of "Suc i" xs] by auto


lemma dispatch_at_total:
  "i < length (pending_workloads s) \<Longrightarrow>
   length (pending_workloads (snd (dispatch_at i s))) + length (running_workloads (snd (dispatch_at i s)))
     + length (completed_workloads (snd (dispatch_at i s)))
   = length (pending_workloads s) + length (running_workloads s) + length (completed_workloads s)"
  by (cases "pending_workloads s") (simp_all add: dispatch_at_def Let_def length_erase_at)

lemma dispatch_at_pending: "set (pending_workloads (snd (dispatch_at i s))) \<subseteq> set (pending_workloads s)"
  using set_erase_at [of i "pending_workloads s"] by (simp add: dispatch_at_def Let_def)

lemma Priority_index_less:
  "pending_workloads s \<noteq> [] \<Longrightarrow>
   max_element (\<lambda>a b. priority (h a) < priority (h b)) (pending_workloads s)
     < length (pending_workloads s)"
  by (rule max_element_first_max(1) [where f = "\<lambda>a. priority (h a)"])

lemma ShortestJobFirst_index_less:
  "pending_workloads s \<noteq> [] \<Longrightarrow>
   min_element (\<lambda>a b. estimated_instructions (h a) < estimated_instructions (h b)) (pending_workloads s)
     < length (pending_workloads s)"
  by (rule min_element_first_min(1) [where f = "\<lambda>a. estimated_instructions (h a)"])

lemma getNextWorkload_total:
  "bucket_total (snd (sched_getNextWorkload h s)) = bucket_total s"
proof (cases s)
  case (FIFO_Scheduler b)
  then show ?thesis
    using dispatch_at_total [of 0 b]
    by (simp add: bucket_total_def FIFO_getNextWorkload_def)
next
  case (Priority_Scheduler b)
  then show ?thesis
    using dispatch_at_total [OF Priority_index_less, of b h]
    by (simp add: bucket_total_def Priority_getNextWorkload_def)
next
  case (RoundRobin_Scheduler b)
  let ?b1 = "b\<lparr>current_index := current_index b mod length (pending_workloads b)\<rparr>"
  have "pending_workloads b \<noteq> [] \<Longrightarrow> current_index ?b1 < length (pending_workloads ?b1)"
    by simp
  from dispatch_at_total [OF this] RoundRobin_Scheduler show ?thesis
    by (simp add: bucket_total_def RoundRobin_getNextWorkload_def Let_def)
next
  case (ShortestJobFirst_Scheduler b)
  then show ?thesis
    using dispatch_at_total [OF ShortestJobFirst_index_less, of b h]
    by (simp add: bucket_total_def ShortestJobFirst_getNextWorkload_def)
qed

lemma getNextWorkload_pending:
  "set (pending_of (snd (sched_getNextWorkload h s))) \<subseteq> set (pending_of s)"
proof (cases s)
  case (FIFO_Scheduler b)
  then show ?thesis
    using dispatch_at_pending [of 0 b] by (simp add: FIFO_getNextWorkload_def)
next
  case (Priority_Scheduler b)
  then show ?thesis
    using dispatch_at_pending [of _ b] by (simp add: Priority_getNextWorkload_def)
next
  case (RoundRobin_Scheduler b)
  then show ?thesis
    using dispatch_at_pending [of _ "b\<lparr>current_index := current_index b mod length (pending_workloads b)\<rparr>"]
    by (simp add: RoundRobin_getNextWorkload_def Let_def)
next
  case (ShortestJobFirst_Scheduler b)
  then show ?thesis
    using dispatch_at_pending [of _ b] by (simp add: ShortestJobFirst_getNextWorkload_def)
qed

lemma length_remove1_mem: "x \<in> set xs \<Longrightarrow> Suc (length (remove1 x xs)) = length xs"
  by (induction xs) auto

lemma sched_step_total:
  "bucket_total (sched_step op s) = bucket_total s + (if is_submission op then 1 else 0)"
proof (cases op)
  case (AddWorkload w)
  then show ?thesis by (cases s) (simp_all add: bucket_total_def addWorkload_def)
next
  case (GetNextWorkload h)
  then show ?thesis by (simp add: getNextWorkload_total)
next
  case (MarkWorkloadRunning w)
  then show ?thesis
    using length_remove1_mem [of w]
    by (cases s) (auto simp: bucket_total_def markWorkloadRunning_def)
next
  case (MarkWorkloadCompleted w)
  then show ?thesis
    using length_remove1_mem [of w]
    by (cases s) (auto simp: bucket_total_def markWorkloadCompleted_def)
qed

lemma sched_step_pending:
  "op \<noteq> AddWorkload w \<Longrightarrow> w \<notin> set (pending_of s) \<Longrightarrow> w \<notin> set (pending_of (sched_step op s))"
proof (cases op)
  case (AddWorkload w')
  assume "op \<noteq> AddWorkload w" "w \<notin> set (pending_of s)"
  with AddWorkload show ?thesis by (cases s) (simp_all add: addWorkload_def)
next
  case (GetNextWorkload h)
  assume "w \<notin> set (pending_of s)"
  with GetNextWorkload getNextWorkload_pending [of h s] show ?thesis by auto
next
  case (MarkWorkloadRunning w')
  assume "w \<notin> set (pending_of s)"
  with MarkWorkloadRunning show ?thesis
    using set_remove1_subset [of w']
    by (cases s) (auto simp: markWorkloadRunning_def)
next
  case (MarkWorkloadCompleted w')
  assume "w \<notin> set (pending_of s)"
  with MarkWorkloadCompleted show ?thesis
    by (cases s) (auto simp: markWorkloadCompleted_def)
qed

lemma sched_run_total: "bucket_total (sched_run ops s) = bucket_total s + submitted ops"
  unfolding sched_run_def submitted_def
  by (induction ops arbitrary: s) (simp_all add: sched_step_total)

lemma sched_run_pending:
  "w \<notin> set (pending_of s) \<Longrightarrow> AddWorkload w \<notin> set ops \<Longrightarrow> w \<notin> set (pending_of (sched_run ops s))"
  unfolding sched_run_def
proof (induction ops arbitrary: s)
  case Nil
  then show ?case by simp
next
  case (Cons op ops)
  from Cons.prems have "op \<noteq> AddWorkload w" "AddWorkload w \<notin> set ops" by auto
  with Cons.prems(1) Cons.IH [of "sched_step op s"] sched_step_pending [of op w s]
  show ?case by simp
qed

lemma createScheduler_total: "bucket_total (createScheduler alg) = 0"
  by (cases alg) (simp_all add: bucket_total_def empty_Scheduler_def new_RoundRobinScheduler_def)


lemma erase_at_nth_cursor: "Suc c < length xs \<Longrightarrow> erase_at c xs ! c = xs ! Suc c"
  by (simp add: erase_at_def nth_append min_def)

text \<open>
  Claim C1, as amended. The round-robin scheduler starts with cursor 0. On an empty
  pending list \<open>getNextWorkload\<close> returns nothing and changes nothing. Otherwise it
  reduces the cursor modulo the number of pending kernels, removes the kernel at that
  position from pending, appends it to running and returns it; a cursor that was inside
  the list keeps its value, and the kernel that followed the removed one now stands at
  the cursor. Since nothing else writes the cursor it stays 0, and for the seed
  A, B, C, D four successive calls dispatch A, B, C, D (position 0 each time).
\<close>

theorem RoundRobin_getNextWorkload_cursor:
  "current_index new_RoundRobinScheduler = 0 \<and>
   (pending_workloads s = [] \<longrightarrow> RoundRobin_getNextWorkload s = (None, s)) \<and>
   (pending_workloads s \<noteq> [] \<longrightarrow>
      (let c = current_index s mod length (pending_workloads s);
           w = pending_workloads s ! c
       in RoundRobin_getNextWorkload s =
            (Some w, s\<lparr>pending_workloads := erase_at c (pending_workloads s),
                       running_workloads := running_workloads s @ [w],
                       current_index := c\<rparr>) \<and>
          (Suc c < length (pending_workloads s) \<longrightarrow>
             pending_workloads (snd (RoundRobin_getNextWorkload s)) ! c
               = pending_workloads s ! Suc c))) \<and>
   (current_index s < length (pending_workloads s) \<longrightarrow>
      current_index (snd (RoundRobin_getNextWorkload s)) = current_index s) \<and>
   dispatch_order 4 seed_heap (seed_scheduler ROUND_ROBIN) = [Some 0, Some 1, Some 2, Some 3] \<and>
   dispatched_names seed_heap (dispatch_order 4 seed_heap (seed_scheduler ROUND_ROBIN))
     = [''A'', ''B'', ''C'', ''D'']"
proof -
  have new: "current_index new_RoundRobinScheduler = 0"
    by (simp add: new_RoundRobinScheduler_def)
  have empty: "pending_workloads s = [] \<longrightarrow> RoundRobin_getNextWorkload s = (None, s)"
    by (simp add: RoundRobin_getNextWorkload_def)
  have step: "pending_workloads s \<noteq> [] \<longrightarrow>
      (let c = current_index s mod length (pending_workloads s);
           w = pending_workloads s ! c
       in RoundRobin_getNextWorkload s =
            (Some w, s\<lparr>pending_workloads := erase_at c (pending_workloads s),
                       running_workloads := running_workloads s @ [w],
                       current_index := c\<rparr>) \<and>
          (Suc c < length (pending_workloads s) \<longrightarrow>
             pending_workloads (snd (RoundRobin_getNextWorkload s)) ! c
               = pending_workloads s ! Suc c))"
    by (simp add: RoundRobin_getNextWorkload_def dispatch_at_def Let_def erase_at_nth_cursor)
  have keep: "current_index s < length (pending_workloads s) \<longrightarrow>
      current_index (snd (RoundRobin_getNextWorkload s)) = current_index s"
    by (auto simp: RoundRobin_getNextWorkload_def dispatch_at_def Let_def)
  have seed1: "dispatch_order 4 seed_heap (seed_scheduler ROUND_ROBIN)
      = [Some 0, Some 1, Some 2, Some 3]"
    by code_simp
  have seed2: "dispatched_names seed_heap (dispatch_order 4 seed_heap (seed_scheduler ROUND_ROBIN))
      = [''A'', ''B'', ''C'', ''D'']"
    by code_simp
  from new empty step keep seed1 seed2 show ?thesis by blast
qed

theorem RoundRobin_getNextWorkload_cursor_witness:
  "pending_workloads seed_round_robin \<noteq> [] \<and>
   current_index seed_round_robin < length (pending_workloads seed_round_robin) \<and>
   Suc (current_index seed_round_robin mod length (pending_workloads seed_round_robin))
     < length (pending_workloads seed_round_robin) \<and>
   fst (RoundRobin_getNextWorkload seed_round_robin) = Some 0 \<and>
   pending_workloads (snd (RoundRobin_getNextWorkload seed_round_robin)) ! 0 = 1 \<and>
   current_index (snd (RoundRobin_getNextWorkload seed_round_robin)) = 0"
  using RoundRobin_getNextWorkload_cursor [of seed_round_robin]
  by (auto simp: seed_round_robin_def Let_def erase_at_def)

text \<open>
  Claim C1 as stated fails on its own example: on the seed the four calls do not
  dispatch A, C, D, B.
\<close>

theorem RoundRobin_seed_order_counterexample:
  "dispatched_names seed_heap (dispatch_order 4 seed_heap (seed_scheduler ROUND_ROBIN))
     \<noteq> [''A'', ''C'', ''D'', ''B'']"
  by code_simp

text \<open>
  Claim C4. On an empty pending list the priority scheduler's \<open>getNextWorkload\<close>
  returns nothing and changes nothing. Otherwise it removes from pending, appends to
  running and returns the kernel at a position \<open>i\<close> whose priority is maximal among
  the pending kernels and strictly larger than the priority of every kernel before
  \<open>i\<close> (ties go to the earliest submitted). On the seed A (1), B (5), C (3), D (5)
  four successive calls dispatch B, D, C, A.
\<close>

theorem Priority_getNextWorkload_first_max:
  "(pending_workloads s = [] \<longrightarrow> Priority_getNextWorkload h s = (None, s)) \<and>
   (pending_workloads s \<noteq> [] \<longrightarrow>
      (\<exists>i<length (pending_workloads s).
         Priority_getNextWorkload h s =
           (Some (pending_workloads s ! i),
            s\<lparr>pending_workloads := erase_at i (pending_workloads s),
              running_workloads := running_workloads s @ [pending_workloads s ! i]\<rparr>) \<and>
         (\<forall>j<length (pending_workloads s).
            priority (h (pending_workloads s ! j)) \<le> priority (h (pending_workloads s ! i))) \<and>
         (\<forall>j<i. priority (h (pending_workloads s ! j)) < priority (h (pending_workloads s ! i))))) \<and>
   dispatch_order 4 seed_heap (seed_scheduler PRIORITY) = [Some 1, Some 3, Some 2, Some 0] \<and>
   dispatched_names seed_heap (dispatch_order 4 seed_heap (seed_scheduler PRIORITY))
     = [''B'', ''D'', ''C'', ''A'']"
proof -
  let ?p = "pending_workloads s"
  let ?i = "max_element (\<lambda>a b. priority (h a) < priority (h b)) ?p"
  have empty: "?p = [] \<longrightarrow> Priority_getNextWorkload h s = (None, s)"
    by (simp add: Priority_getNextWorkload_def)
  have step: "\<exists>i<length ?p.
         Priority_getNextWorkload h s =
           (Some (?p ! i),
            s\<lparr>pending_workloads := erase_at i ?p, running_workloads := running_workloads s @ [?p ! i]\<rparr>) \<and>
         (\<forall>j<length ?p. priority (h (?p ! j)) \<le> priority (h (?p ! i))) \<and>
         (\<forall>j<i. priority (h (?p ! j)) < priority (h (?p ! i)))"
    if ne: "?p \<noteq> []"
  proof (intro exI [of _ ?i] conjI)
    show "?i < length ?p"
      using ne by (rule max_element_first_max(1) [where f = "\<lambda>a. priority (h a)"])
    show "Priority_getNextWorkload h s =
           (Some (?p ! ?i),
            s\<lparr>pending_workloads := erase_at ?i ?p, running_workloads := running_workloads s @ [?p ! ?i]\<rparr>)"
      using ne by (simp add: Priority_getNextWorkload_def dispatch_at_def Let_def)
    show "\<forall>j<length ?p. priority (h (?p ! j)) \<le> priority (h (?p ! ?i))"
      using ne by (rule max_element_first_max(2) [where f = "\<lambda>a. priority (h a)"])
    show "\<forall>j<?i. priority (h (?p ! j)) < priority (h (?p ! ?i))"
      using ne by (rule max_element_first_max(3) [where f = "\<lambda>a. priority (h a)"])
  qed
  have seed1: "dispatch_order 4 seed_heap (seed_scheduler PRIORITY) = [Some 1, Some 3, Some 2, Some 0]"
    by code_simp
  have seed2: "dispatched_names seed_heap (dispatch_order 4 seed_heap (seed_scheduler PRIORITY))
      = [''B'', ''D'', ''C'', ''A'']"
    by code_simp
  from empty step seed1 seed2 show ?thesis by blast
qed

theorem Priority_getNextWorkload_first_max_witness:
  "pending_workloads seed_pending \<noteq> [] \<and>
   (\<exists>i<length (pending_workloads seed_pending).
      Priority_getNextWorkload seed_heap seed_pending =
        (Some (pending_workloads seed_pending ! i),
         seed_pending\<lparr>pending_workloads := erase_at i (pending_workloads seed_pending),
           running_workloads := running_workloads seed_pending @ [pending_workloads seed_pending ! i]\<rparr>) \<and>
      (\<forall>j<length (pending_workloads seed_pending).
         priority (seed_heap (pending_workloads seed_pending ! j))
           \<le> priority (seed_heap (pending_workloads seed_pending ! i))) \<and>
      (\<forall>j<i. priority (seed_heap (pending_workloads seed_pending ! j))
           < priority (seed_heap (pending_workloads seed_pending ! i))))"
proof -
  have ne: "pending_workloads seed_pending \<noteq> []"
    by (simp add: seed_pending_def)
  with Priority_getNextWorkload_first_max [of seed_pending seed_heap] show ?thesis
    by blast
qed

text \<open>
  Claim C5, as amended. After every sequence of scheduler operations on a scheduler
  made by the factory, whatever the policy, the three buckets together hold as many
  entries as there were submissions (\<open>addWorkload\<close> calls); from any state, a run adds
  exactly its submissions to that total. A kernel that is not in the pending bucket
  is not in it after any sequence of operations that does not submit this kernel
  again: only \<open>addWorkload\<close> puts a kernel into pending.
\<close>

theorem scheduler_buckets_conserved:
  "bucket_total (sched_run ops (createScheduler alg)) = submitted ops \<and>
   bucket_total (sched_run ops s) = bucket_total s + submitted ops \<and>
   (w \<notin> set (pending_of s) \<and> AddWorkload w \<notin> set ops \<longrightarrow>
      w \<notin> set (pending_of (sched_run ops s)))"
  using sched_run_total [of ops "createScheduler alg"] sched_run_total [of ops s]
    sched_run_pending [of w s ops] createScheduler_total [of alg]
  by simp

theorem scheduler_buckets_conserved_witness:
  "(0::nat) \<notin> set (pending_of (sched_run [AddWorkload 0, GetNextWorkload seed_heap] (createScheduler FIFO))) \<and>
   AddWorkload 0 \<notin> set [AddWorkload 1, MarkWorkloadCompleted 0] \<and>
   0 \<notin> set (pending_of (sched_run [AddWorkload 1, MarkWorkloadCompleted 0]
        (sched_run [AddWorkload 0, GetNextWorkload seed_heap] (createScheduler FIFO))))"
proof -
  have a: "(0::nat) \<notin> set (pending_of (sched_run [AddWorkload 0, GetNextWorkload seed_heap] (createScheduler FIFO)))"
    by (simp add: sched_run_def empty_Scheduler_def addWorkload_def FIFO_getNextWorkload_def
        dispatch_at_def erase_at_def)
  have b: "AddWorkload 0 \<notin> set [AddWorkload 1, MarkWorkloadCompleted 0]" by simp
  from a b scheduler_buckets_conserved
    [of "[AddWorkload 1, MarkWorkloadCompleted 0]" FIFO
        "sched_run [AddWorkload 0, GetNextWorkload seed_heap] (createScheduler FIFO)" 0]
  show ?thesis by blast
qed

text \<open>
  Claim C5 as stated fails for a kernel that is submitted again: kernel 0 is pending,
  is dispatched (it leaves pending for running), and the second \<open>addWorkload\<close> of the
  same kernel puts it back into pending.
\<close>

theorem kernel_reenters_pending_counterexample:
  "(0::nat) \<in> set (pending_of (sched_run [AddWorkload 0] (createScheduler FIFO))) \<and>
   0 \<notin> set (pending_of (sched_run [AddWorkload 0, GetNextWorkload seed_heap] (createScheduler FIFO))) \<and>
   0 \<in> set (running_of (sched_run [AddWorkload 0, GetNextWorkload seed_heap] (createScheduler FIFO))) \<and>
   0 \<in> set (pending_of (sched_run [AddWorkload 0, GetNextWorkload seed_heap, AddWorkload 0]
                          (createScheduler FIFO)))"
  by (simp add: sched_run_def empty_Scheduler_def addWorkload_def FIFO_getNextWorkload_def
        dispatch_at_def erase_at_def)

section \<open>Properties of the global memory\<close>

text \<open>What \<open>read\<close> and \<open>write\<close> do, in the 64-bit arithmetic of the code.\<close>

lemma GlobalMemory_read_result:
  "GlobalMemory_read address bytes m =
     (if address + bytes \<le> mem_size m
      then (True, m\<lparr>access_count := access_count m + 1, read_count := read_count m + 1,
                    bytes_read := bytes_read m + bytes\<rparr>)
      else (False, m))"
  by (simp add: GlobalMemory_read_def not_le)

lemma GlobalMemory_write_result:
  "GlobalMemory_write address bytes m =
     (if address + bytes \<le> mem_size m
      then (True, m\<lparr>access_count := access_count m + 1, write_count := write_count m + 1,
                    bytes_written := bytes_written m + bytes\<rparr>)
      else (False, m))"
  by (simp add: GlobalMemory_write_def not_le)

lemma bounds_check_without_wrap:
  fixes address bytes sz :: "64 word"
  assumes "unat address + unat bytes < 2 ^ 64"
  shows "address + bytes \<le> sz \<longleftrightarrow> unat address + unat bytes \<le> unat sz"
  using assms by (simp add: word_le_nat_alt unat_word_ariths)

text \<open>
  Claim C9 fails at the top of the address range. For the default global memory of
  8 GiB, address \<open>2\<^sup>6\<^sup>4 - 1\<close> and one byte, the sum \<open>address + bytes\<close> exceeds the size,
  but the 64-bit addition in the bounds check wraps to 0: \<open>read\<close> and \<open>write\<close> return
  true and count the access.
\<close>

theorem GlobalMemory_bounds_check_wraps:
  "unat (18446744073709551615 :: MemoryAddress) + unat (1 :: size_t) > unat GLOBAL_MEMORY_SIZE \<and>
   fst (GlobalMemory_read 18446744073709551615 1 (new_GlobalMemory GLOBAL_MEMORY_SIZE)) = True \<and>
   read_count (snd (GlobalMemory_read 18446744073709551615 1 (new_GlobalMemory GLOBAL_MEMORY_SIZE))) = 1 \<and>
   access_count (snd (GlobalMemory_read 18446744073709551615 1 (new_GlobalMemory GLOBAL_MEMORY_SIZE))) = 1 \<and>
   bytes_read (snd (GlobalMemory_read 18446744073709551615 1 (new_GlobalMemory GLOBAL_MEMORY_SIZE))) = 1 \<and>
   fst (GlobalMemory_write 18446744073709551615 1 (new_GlobalMemory GLOBAL_MEMORY_SIZE)) = True \<and>
   write_count (snd (GlobalMemory_write 18446744073709551615 1 (new_GlobalMemory GLOBAL_MEMORY_SIZE))) = 1"
  by (simp add: GlobalMemory_read_def GlobalMemory_write_def new_GlobalMemory_def GLOBAL_MEMORY_SIZE_def)

section \<open>Properties of the metrics analyzer\<close>

text \<open>
  Claim C10. With no recorded workload metrics, \<open>getFastestWorkload\<close> and
  \<open>getSlowestWorkload\<close> return the default-initialised record (empty name, zero times
  and counters). With at least one recorded workload they return one of the recorded
  records, of minimal (respectively maximal) \<open>execution_time_ms\<close> among them.
\<close>

theorem fastest_slowest_workload:
  "(workload_metrics a = [] \<longrightarrow>
      getFastestWorkload a = default_WorkloadMetrics \<and>
      getSlowestWorkload a = default_WorkloadMetrics) \<and>
   workload_name default_WorkloadMetrics = [] \<and>
   execution_time_ms default_WorkloadMetrics = 0 \<and>
   metrics_instructions_executed default_WorkloadMetrics = 0 \<and>
   memory_operations default_WorkloadMetrics = 0 \<and>
   metrics_cycles_executed default_WorkloadMetrics = 0 \<and>
   average_cu_utilization default_WorkloadMetrics = 0 \<and>
   total_threads default_WorkloadMetrics = 0 \<and>
   total_blocks default_WorkloadMetrics = 0 \<and>
   throughput default_WorkloadMetrics = 0 \<and>
   (workload_metrics a \<noteq> [] \<longrightarrow>
      getFastestWorkload a \<in> set (workload_metrics a) \<and>
      (\<forall>m \<in> set (workload_metrics a). execution_time_ms (getFastestWorkload a) \<le> execution_time_ms m) \<and>
      getSlowestWorkload a \<in> set (workload_metrics a) \<and>
      (\<forall>m \<in> set (workload_metrics a). execution_time_ms m \<le> execution_time_ms (getSlowestWorkload a)))"
proof -
  let ?ms = "workload_metrics a"
  have empty: "?ms = [] \<longrightarrow>
      getFastestWorkload a = default_WorkloadMetrics \<and> getSlowestWorkload a = default_WorkloadMetrics"
    by (simp add: getFastestWorkload_def getSlowestWorkload_def)
  have dflt: "workload_name default_WorkloadMetrics = [] \<and>
   execution_time_ms default_WorkloadMetrics = 0 \<and>
   metrics_instructions_executed default_WorkloadMetrics = 0 \<and>
   memory_operations default_WorkloadMetrics = 0 \<and>
   metrics_cycles_executed default_WorkloadMetrics = 0 \<and>
   average_cu_utilization default_WorkloadMetrics = 0 \<and>
   total_threads default_WorkloadMetrics = 0 \<and>
   total_blocks default_WorkloadMetrics = 0 \<and>
   throughput default_WorkloadMetrics = 0"
    by (simp add: default_WorkloadMetrics_def)
  have rec: "getFastestWorkload a \<in> set ?ms \<and>
      (\<forall>m \<in> set ?ms. execution_time_ms (getFastestWorkload a) \<le> execution_time_ms m) \<and>
      getSlowestWorkload a \<in> set ?ms \<and>
      (\<forall>m \<in> set ?ms. execution_time_ms m \<le> execution_time_ms (getSlowestWorkload a))"
    if ne: "?ms \<noteq> []"
  proof (intro conjI ballI)
    note mn = min_element_first_min [where f = execution_time_ms, OF ne]
    note mx = max_element_first_max [where f = execution_time_ms, OF ne]
    show "getFastestWorkload a \<in> set ?ms"
      using ne mn(1) by (simp add: getFastestWorkload_def)
    show "getSlowestWorkload a \<in> set ?ms"
      using ne mx(1) by (simp add: getSlowestWorkload_def)
    fix m assume "m \<in> set ?ms"
    then obtain j where j: "j < length ?ms" "m = ?ms ! j"
      by (auto simp: in_set_conv_nth)
    show "execution_time_ms (getFastestWorkload a) \<le> execution_time_ms m"
      using ne mn(2) j by (simp add: getFastestWorkload_def)
    show "execution_time_ms m \<le> execution_time_ms (getSlowestWorkload a)"
      using ne mx(2) j by (simp add: getSlowestWorkload_def)
  qed
  from empty dflt rec show ?thesis by blast
qed

theorem fastest_slowest_workload_witness:
  "workload_metrics new_PerformanceAnalyzer = [] \<and>
   getFastestWorkload new_PerformanceAnalyzer = default_WorkloadMetrics \<and>
   getSlowestWorkload new_PerformanceAnalyzer = default_WorkloadMetrics \<and>
   workload_metrics sample_analyzer \<noteq> [] \<and>
   getFastestWorkload sample_analyzer = sample_metrics ''v'' 2 \<and>
   getSlowestWorkload sample_analyzer = sample_metrics ''r'' 9"
proof -
  let ?ms = "[sample_metrics ''m'' 7, sample_metrics ''v'' 2, sample_metrics ''r'' 9]"
  have e: "workload_metrics new_PerformanceAnalyzer = []"
    by (simp add: new_PerformanceAnalyzer_def)
  have ms: "workload_metrics sample_analyzer = ?ms"
    by (simp add: sample_analyzer_def)
  then have ne: "workload_metrics sample_analyzer \<noteq> []" by simp
  have t: "execution_time_ms (sample_metrics n x) = x" for n x
    by (simp add: sample_metrics_def)
  from e fastest_slowest_workload [of new_PerformanceAnalyzer]
  have d: "getFastestWorkload new_PerformanceAnalyzer = default_WorkloadMetrics"
    "getSlowestWorkload new_PerformanceAnalyzer = default_WorkloadMetrics"
    by blast+
  from ne fastest_slowest_workload [of sample_analyzer]
  have f: "getFastestWorkload sample_analyzer \<in> set ?ms"
    "\<forall>m \<in> set ?ms. execution_time_ms (getFastestWorkload sample_analyzer) \<le> execution_time_ms m"
    "getSlowestWorkload sample_analyzer \<in> set ?ms"
    "\<forall>m \<in> set ?ms. execution_time_ms m \<le> execution_time_ms (getSlowestWorkload sample_analyzer)"
    unfolding ms by blast+
  from f(2) have "execution_time_ms (getFastestWorkload sample_analyzer) \<le> 2" by (simp add: t)
  with f(1) have fast: "getFastestWorkload sample_analyzer = sample_metrics ''v'' 2"
    by (auto simp: t)
  from f(4) have "9 \<le> execution_time_ms (getSlowestWorkload sample_analyzer)" by (simp add: t)
  with f(3) have slow: "getSlowestWorkload sample_analyzer = sample_metrics ''r'' 9"
    by (auto simp: t)
  from e d ne fast slow show ?thesis by simp
qed

section \<open>Properties of workloads\<close>

subsection \<open>The factories\<close>



lemma ceiling_div_32: "nat \<lceil>real m / 32\<rceil> = (m + 31) div 32"
proof -
  have "\<lceil>real m / 32\<rceil> = \<lceil>(of_int (int m) :: real) / of_int 32\<rceil>" by simp
  also have "\<dots> = - (- int m div 32)" by (rule ceiling_divide_eq_div)
  also have "\<dots> = (int m + 31) div 32" by linarith
  finally have "\<lceil>real m / 32\<rceil> = int ((m + 31) div 32)" by (simp add: zdiv_int)
  then show ?thesis by simp
qed




lemmas factory_defs =
  createMatrixMultiply_def createConvolution_def createVectorAdd_def createReduction_def
  Let_def setEstimatedMemoryOps_def setEstimatedInstructions_def new_Workload_def
  new_KernelConfig_def





text \<open>
  The instruction estimate of the reduction is the size times the number of steps that
  the library computes in floating point. Whether that number is \<open>\<lfloor>log\<^sub>2 S\<rfloor>\<close> is not
  decided inside the repository: for \<open>S = 2\<^sup>4\<^sup>9 - 1\<close> the integer logarithm is 48, and a
  library that returns the double nearest to the exact logarithm returns 49, with
  which the estimate is \<open>49 S\<close>.
\<close>

lemma createReduction_estimate_from_library:
  "estimated_instructions (createReduction log2_steps S) = S * log2_steps S"
  by (simp add: factory_defs)

lemma createReduction_estimate_rounded_up:
  assumes "log2_steps 562949953421311 = 49"
  shows "unat (estimated_instructions (createReduction log2_steps 562949953421311))
           = 49 * 562949953421311"
    and "nat \<lfloor>log 2 (real (unat (562949953421311 :: size_t)))\<rfloor> = 48"
proof -
  show "unat (estimated_instructions (createReduction log2_steps 562949953421311))
           = 49 * 562949953421311"
    unfolding createReduction_estimate_from_library assms by simp
  have "\<lfloor>log 2 (real (562949953421311 :: nat))\<rfloor> = int 48"
    using floor_log_nat_eq_if [of 2 48 562949953421311] by simp
  then show "nat \<lfloor>log 2 (real (unat (562949953421311 :: size_t)))\<rfloor> = 48" by simp
qed




subsection \<open>Block materialisation and hand-out\<close>


lemma fold_snoc_map: "fold (\<lambda>i bs. bs @ [f i]) is acc = acc @ map f is"
  by (induction "is" arbitrary: acc) simp_all

lemma generate_blocks_map:
  "thread_blocks (generateThreadBlocks w)
     = map (\<lambda>i. make_block (config w) (of_nat i)) [0..<unat (getTotalBlocks (config w))]"
  by (simp add: generateThreadBlocks_def fold_snoc_map)

lemma generate_idem: "generateThreadBlocks (generateThreadBlocks w) = generateThreadBlocks w"
  by (simp add: generateThreadBlocks_def)

lemma generate_discards: "generateThreadBlocks (w\<lparr>thread_blocks := bs\<rparr>) = generateThreadBlocks w"
  by (simp add: generateThreadBlocks_def)

lemma generate_length: "length (thread_blocks (generateThreadBlocks w)) = unat (getTotalBlocks (config w))"
  by (simp add: generate_blocks_map)

lemma unat_mult3:
  "unat ((a :: size_t) * b * c) = (unat a * unat b * unat c) mod 2 ^ 64"
  by (simp add: unat_word_ariths mod_simps)

lemma generate_nth:
  "i < unat (getTotalBlocks (config w)) \<Longrightarrow>
   thread_blocks (generateThreadBlocks w) ! i = make_block (config w) (of_nat i)"
  by (simp add: generate_blocks_map)

lemma make_block_id: "block_id (make_block c i) = ucast i"
  by (simp add: make_block_def Let_def setGridPosition_def new_ThreadBlock_def)

lemma unat_of_nat_size_t: "i < unat (n :: size_t) \<Longrightarrow> unat (of_nat i :: size_t) = i"
proof -
  assume "i < unat n"
  moreover have "unat n < 2 ^ 64" using unsigned_less [of n] by simp
  ultimately have "i < 2 ^ 64" by linarith
  then show ?thesis by (simp add: unat_of_nat)
qed

lemma ucast_of_nat_block_id:
  "i < unat (n :: size_t) \<Longrightarrow> (ucast (of_nat i :: size_t) :: 32 word) = of_nat i"
proof -
  assume "i < unat n"
  moreover have "unat n < 2 ^ 64" using unsigned_less [of n] by simp
  ultimately have "i < 2 ^ 64" by linarith
  then have "take_bit 64 i = i" by (simp add: take_bit_nat_eq_self)
  then show ?thesis by (simp add: unsigned_of_nat)
qed

lemma unat_block_id: "i < 2 ^ 32 \<Longrightarrow> unat (of_nat i :: 32 word) = i"
  by (simp add: unat_of_nat)

lemma grid_pos_y: "(i mod (gx * gy)) div gx = (i div gx) mod gy" for i gx gy :: nat
  by (metis add.right_neutral div_mult_self4 mod_by_0 mod_div_trivial
    mod_mult2_eq mod_mult_self2_is_0)

lemma grid_pos_x: "(i mod (gx * gy)) mod gx = i mod gx" for i gx gy :: nat
  by (simp add: mod_mod_cancel)

lemma sum_min_chunks:
  "sum_list (map (\<lambda>j. min d (T - d * j)) [0..<k]) = min T (d * k)" for d T k :: nat
proof (induction k)
  case 0
  then show ?case by simp
next
  case (Suc k)
  show ?case
  proof (cases "T \<le> d * k")
    case True
    with Suc show ?thesis by simp
  next
    case False
    then have "d * k + min d (T - d * k) = min T (d * k + d)"
      by (simp add: min_def) linarith
    with False Suc show ?thesis by simp
  qed
qed

lemma make_block_grid:
  fixes c :: KernelConfig and i :: nat
  assumes i: "i < unat (getTotalBlocks c)"
    and xy: "unat (grid_dim_x c) * unat (grid_dim_y c) < 2 ^ 64"
  shows "unat (grid_x (make_block c (of_nat i))) = i mod unat (grid_dim_x c)"
    and "unat (grid_y (make_block c (of_nat i))) = (i div unat (grid_dim_x c)) mod unat (grid_dim_y c)"
    and "unat (grid_z (make_block c (of_nat i))) = i div (unat (grid_dim_x c) * unat (grid_dim_y c))"
proof -
  have ui: "unat (of_nat i :: size_t) = i" using i by (rule unat_of_nat_size_t)
  have uxy: "unat (grid_dim_x c * grid_dim_y c) = unat (grid_dim_x c) * unat (grid_dim_y c)"
    using xy by (simp add: unat_word_ariths)
  show "unat (grid_x (make_block c (of_nat i))) = i mod unat (grid_dim_x c)"
    by (simp add: make_block_def Let_def setGridPosition_def unat_mod ui uxy grid_pos_x)
  show "unat (grid_y (make_block c (of_nat i))) = (i div unat (grid_dim_x c)) mod unat (grid_dim_y c)"
    by (simp add: make_block_def Let_def setGridPosition_def unat_mod unat_div ui uxy grid_pos_y)
  show "unat (grid_z (make_block c (of_nat i))) = i div (unat (grid_dim_x c) * unat (grid_dim_y c))"
    by (simp add: make_block_def Let_def setGridPosition_def unat_div ui uxy)
qed

lemma make_block_warps: "warps (make_block c i) = warps (new_ThreadBlock (ucast i) (getThreadsPerBlock c))"
  by (simp add: make_block_def Let_def setGridPosition_def)

lemma num_warps_unat:
  "unat (t :: size_t) + 31 < 2 ^ 64 \<Longrightarrow> unat (ThreadBlock_num_warps t) = (unat t + 31) div 32"
  by (simp add: ThreadBlock_num_warps_def WARP_SIZE_def unat_div unat_word_ariths)

lemma warp_threads_unat:
  fixes t :: size_t
  assumes t: "unat t + 31 < 2 ^ 64" and j: "j < (unat t + 31) div 32"
  shows "unat (min WARP_SIZE (t - of_nat j * WARP_SIZE)) = min 32 (unat t - 32 * j)"
    and "32 * j < unat t"
proof -
  from j show lt: "32 * j < unat t" by linarith
  have "unat t < 2 ^ 64" using t by simp
  with lt have j64: "j < 2 ^ 64" by linarith
  have uj: "unat (of_nat j * 32 :: size_t) = 32 * j"
    using lt \<open>unat t < 2 ^ 64\<close> by (simp add: unat_word_ariths unat_of_nat)
  have le: "(of_nat j * 32 :: size_t) \<le> t"
    using lt uj by (simp add: word_le_nat_alt)
  have "unat (t - of_nat j * 32) = unat t - 32 * j"
    using le uj by (simp add: unat_sub)
  then show "unat (min WARP_SIZE (t - of_nat j * WARP_SIZE)) = min 32 (unat t - 32 * j)"
    by (simp add: WARP_SIZE_def min_def word_le_nat_alt)
qed


lemma new_Warp_threads: "length (threads (new_Warp wid bid n)) = unat n"
  by (simp add: new_Warp_def)

lemma new_Warp_mask: "active_mask (new_Warp wid bid n) = mask (unat n)"
  by (simp add: new_Warp_def mask_eq_exp_minus_1)

lemma new_ThreadBlock_length:
  "unat t + 31 < 2 ^ 64 \<Longrightarrow> length (warps (new_ThreadBlock bid t)) = (unat t + 31) div 32"
  by (simp add: new_ThreadBlock_def num_warps_unat)

lemma new_ThreadBlock_nth:
  assumes t: "unat t + 31 < 2 ^ 64" and j: "j < (unat t + 31) div 32"
  shows "getNumThreads (warps (new_ThreadBlock bid t) ! j) = min 32 (unat t - 32 * j)"
    and "active_mask (warps (new_ThreadBlock bid t) ! j) = mask (min 32 (unat t - 32 * j))"
proof -
  have nth: "warps (new_ThreadBlock bid t) ! j
      = new_Warp (ucast (of_nat j :: size_t)) bid (min WARP_SIZE (t - of_nat j * WARP_SIZE))"
    using j num_warps_unat [OF t] by (simp add: new_ThreadBlock_def)
  show "getNumThreads (warps (new_ThreadBlock bid t) ! j) = min 32 (unat t - 32 * j)"
    unfolding nth getNumThreads_def new_Warp_threads by (rule warp_threads_unat(1) [OF t j])
  show "active_mask (warps (new_ThreadBlock bid t) ! j) = mask (min 32 (unat t - 32 * j))"
    unfolding nth new_Warp_mask by (simp only: warp_threads_unat(1) [OF t j])
qed

lemma new_ThreadBlock_total:
  assumes t: "unat t + 31 < 2 ^ 64"
  shows "sum_list (map getNumThreads (warps (new_ThreadBlock bid t))) = unat t"
proof -
  let ?W = "(unat t + 31) div 32"
  let ?ws = "warps (new_ThreadBlock bid t)"
  have len: "length ?ws = ?W" using t by (rule new_ThreadBlock_length)
  have "map getNumThreads ?ws = map getNumThreads (map (\<lambda>j. ?ws ! j) [0..<length ?ws])"
    by (simp only: map_nth)
  also have "\<dots> = map (\<lambda>j. getNumThreads (?ws ! j)) [0..<length ?ws]"
    by (simp add: comp_def)
  also have "\<dots> = map (\<lambda>j. min 32 (unat t - 32 * j)) [0..<?W]"
    unfolding len by (rule map_cong) (simp_all add: new_ThreadBlock_nth(1) [OF t])
  finally have "sum_list (map getNumThreads ?ws) = min (unat t) (32 * ?W)"
    by (simp only: sum_min_chunks)
  moreover have "unat t \<le> 32 * ?W" by linarith
  ultimately show ?thesis by simp
qed

lemma drain_blocks_rev: "drain_blocks w = rev (thread_blocks w)"
proof (induction "thread_blocks w" arbitrary: w rule: rev_induct)
  case Nil
  then show ?case by (simp add: getNextBlock_def)
next
  case (snoc b bs)
  from snoc(2) have eq: "thread_blocks w = bs @ [b]" by simp
  have "bs = thread_blocks (w\<lparr>thread_blocks := bs\<rparr>)" by simp
  from snoc(1) [OF this] have "drain_blocks (w\<lparr>thread_blocks := bs\<rparr>) = rev bs" by simp
  then show ?case
    using eq by (subst drain_blocks.simps) (simp add: getNextBlock_def)
qed

lemma generated_block_props:
  assumes i: "i < length (thread_blocks (generateThreadBlocks w))"
  shows "thread_blocks (generateThreadBlocks w) ! i = make_block (config w) (of_nat i)"
    and "block_id (thread_blocks (generateThreadBlocks w) ! i) = of_nat i"
    and "i < unat (getTotalBlocks (config w))"
proof -
  from i show lt: "i < unat (getTotalBlocks (config w))" by (simp add: generate_length)
  then show nth: "thread_blocks (generateThreadBlocks w) ! i = make_block (config w) (of_nat i)"
    by (rule generate_nth)
  show "block_id (thread_blocks (generateThreadBlocks w) ! i) = of_nat i"
    unfolding nth make_block_id using lt by (rule ucast_of_nat_block_id)
qed

lemma sample_workload_length: "length (thread_blocks (generateThreadBlocks sample_workload)) = 4"
  by (simp add: generate_length sample_workload_def getTotalBlocks_def new_Workload_def
      new_KernelConfig_def)

lemma sample_workload_config:
  "unat (grid_dim_x (config sample_workload)) = 2"
  "unat (grid_dim_y (config sample_workload)) = 2"
  "unat (getThreadsPerBlock (config sample_workload)) = 40"
  by (simp_all add: sample_workload_def getThreadsPerBlock_def new_Workload_def new_KernelConfig_def)

lemma generated_ids:
  "map block_id (thread_blocks (generateThreadBlocks w))
     = map of_nat [0..<unat (getTotalBlocks (config w))]"
  unfolding generate_blocks_map map_map
  by (rule map_cong) (simp_all add: make_block_id ucast_of_nat_block_id)

text \<open>
  Claim C7, as amended. \<open>generateThreadBlocks\<close> is idempotent, discards whatever blocks
  the workload held and changes no other field. It produces
  \<open>gx gy gz mod 2\<^sup>6\<^sup>4\<close> blocks; \<open>threads_per_block\<close> is \<open>bx by bz mod 2\<^sup>6\<^sup>4\<close>. Block \<open>i\<close>
  of the sequence carries the 32-bit value of \<open>i\<close> as its id, which is \<open>i\<close> itself when
  there are at most \<open>2\<^sup>3\<^sup>2\<close> blocks. When \<open>gx gy\<close> is below \<open>2\<^sup>6\<^sup>4\<close>, block \<open>i\<close> has grid
  position \<open>(i mod gx, (i / gx) mod gy, i / (gx gy))\<close>. When \<open>threads_per_block + 31\<close> is
  below \<open>2\<^sup>6\<^sup>4\<close>, each block has \<open>\<lceil>threads_per_block / 32\<rceil>\<close> warps that together hold
  \<open>threads_per_block\<close> threads: warp \<open>j\<close> holds \<open>min 32 (threads_per_block - 32 j)\<close>
  threads, at least one, and 32 unless it is the last; its active mask has exactly its
  low bits set, one per thread, which for a full warp is \<open>2\<^sup>3\<^sup>2 - 1\<close>.
\<close>

theorem generateThreadBlocks_blocks:
  "generateThreadBlocks (generateThreadBlocks w) = generateThreadBlocks w \<and>
   generateThreadBlocks (w\<lparr>thread_blocks := prior\<rparr>) = generateThreadBlocks w \<and>
   generateThreadBlocks w = w\<lparr>thread_blocks := thread_blocks (generateThreadBlocks w)\<rparr> \<and>
   length (thread_blocks (generateThreadBlocks w))
     = (unat (grid_dim_x (config w)) * unat (grid_dim_y (config w)) * unat (grid_dim_z (config w)))
         mod 2 ^ 64 \<and>
   unat (getThreadsPerBlock (config w))
     = (unat (block_dim_x (config w)) * unat (block_dim_y (config w)) * unat (block_dim_z (config w)))
         mod 2 ^ 64 \<and>
   (\<forall>i < length (thread_blocks (generateThreadBlocks w)).
      block_id (thread_blocks (generateThreadBlocks w) ! i) = of_nat i) \<and>
   (length (thread_blocks (generateThreadBlocks w)) \<le> 2 ^ 32 \<longrightarrow>
      (\<forall>i < length (thread_blocks (generateThreadBlocks w)).
         unat (block_id (thread_blocks (generateThreadBlocks w) ! i)) = i)) \<and>
   (unat (grid_dim_x (config w)) * unat (grid_dim_y (config w)) < 2 ^ 64 \<longrightarrow>
      (\<forall>i < length (thread_blocks (generateThreadBlocks w)).
         unat (grid_x (thread_blocks (generateThreadBlocks w) ! i)) = i mod unat (grid_dim_x (config w)) \<and>
         unat (grid_y (thread_blocks (generateThreadBlocks w) ! i))
           = (i div unat (grid_dim_x (config w))) mod unat (grid_dim_y (config w)) \<and>
         unat (grid_z (thread_blocks (generateThreadBlocks w) ! i))
           = i div (unat (grid_dim_x (config w)) * unat (grid_dim_y (config w))))) \<and>
   (unat (getThreadsPerBlock (config w)) + 31 < 2 ^ 64 \<longrightarrow>
      (\<forall>i < length (thread_blocks (generateThreadBlocks w)).
         getNumWarps (thread_blocks (generateThreadBlocks w) ! i)
           = nat \<lceil>real (unat (getThreadsPerBlock (config w))) / 32\<rceil> \<and>
         sum_list (map getNumThreads (warps (thread_blocks (generateThreadBlocks w) ! i)))
           = unat (getThreadsPerBlock (config w)) \<and>
         (\<forall>j < getNumWarps (thread_blocks (generateThreadBlocks w) ! i).
            getNumThreads (warps (thread_blocks (generateThreadBlocks w) ! i) ! j)
              = min 32 (unat (getThreadsPerBlock (config w)) - 32 * j) \<and>
            1 \<le> getNumThreads (warps (thread_blocks (generateThreadBlocks w) ! i) ! j) \<and>
            (Suc j < getNumWarps (thread_blocks (generateThreadBlocks w) ! i) \<longrightarrow>
               getNumThreads (warps (thread_blocks (generateThreadBlocks w) ! i) ! j) = 32) \<and>
            active_mask (warps (thread_blocks (generateThreadBlocks w) ! i) ! j)
              = mask (getNumThreads (warps (thread_blocks (generateThreadBlocks w) ! i) ! j)) \<and>
            (getNumThreads (warps (thread_blocks (generateThreadBlocks w) ! i) ! j) = 32 \<longrightarrow>
               active_mask (warps (thread_blocks (generateThreadBlocks w) ! i) ! j) = 4294967295))))"
proof -
  let ?g = "generateThreadBlocks w"
  let ?bs = "thread_blocks ?g"
  let ?c = "config w"
  let ?T = "unat (getThreadsPerBlock ?c)"
  have p1: "generateThreadBlocks ?g = ?g" by (rule generate_idem)
  have p2: "generateThreadBlocks (w\<lparr>thread_blocks := prior\<rparr>) = ?g" by (rule generate_discards)
  have p3: "?g = w\<lparr>thread_blocks := ?bs\<rparr>" by (simp add: generateThreadBlocks_def)
  have p4: "length ?bs
     = (unat (grid_dim_x ?c) * unat (grid_dim_y ?c) * unat (grid_dim_z ?c)) mod 2 ^ 64"
    unfolding generate_length getTotalBlocks_def by (rule unat_mult3)
  have p5: "?T = (unat (block_dim_x ?c) * unat (block_dim_y ?c) * unat (block_dim_z ?c)) mod 2 ^ 64"
    unfolding getThreadsPerBlock_def by (rule unat_mult3)
  have p6: "\<forall>i < length ?bs. block_id (?bs ! i) = of_nat i"
    by (simp add: generated_block_props(2))
  have p7: "length ?bs \<le> 2 ^ 32 \<longrightarrow> (\<forall>i < length ?bs. unat (block_id (?bs ! i)) = i)"
  proof (intro impI allI)
    fix i assume "length ?bs \<le> 2 ^ 32" "i < length ?bs"
    then have "i < 2 ^ 32" "block_id (?bs ! i) = of_nat i"
      using generated_block_props(2) [of i w] by simp_all
    then show "unat (block_id (?bs ! i)) = i" by (simp add: unat_block_id)
  qed
  have p8: "unat (grid_dim_x ?c) * unat (grid_dim_y ?c) < 2 ^ 64 \<longrightarrow>
      (\<forall>i < length ?bs.
         unat (grid_x (?bs ! i)) = i mod unat (grid_dim_x ?c) \<and>
         unat (grid_y (?bs ! i)) = (i div unat (grid_dim_x ?c)) mod unat (grid_dim_y ?c) \<and>
         unat (grid_z (?bs ! i)) = i div (unat (grid_dim_x ?c) * unat (grid_dim_y ?c)))"
  proof (intro impI allI)
    fix i assume xy: "unat (grid_dim_x ?c) * unat (grid_dim_y ?c) < 2 ^ 64" and i: "i < length ?bs"
    note g = generated_block_props [OF i]
    show "unat (grid_x (?bs ! i)) = i mod unat (grid_dim_x ?c) \<and>
         unat (grid_y (?bs ! i)) = (i div unat (grid_dim_x ?c)) mod unat (grid_dim_y ?c) \<and>
         unat (grid_z (?bs ! i)) = i div (unat (grid_dim_x ?c) * unat (grid_dim_y ?c))"
      unfolding g(1) using make_block_grid [OF g(3) xy] by blast
  qed
  have p9: "?T + 31 < 2 ^ 64 \<longrightarrow>
      (\<forall>i < length ?bs.
         getNumWarps (?bs ! i) = nat \<lceil>real ?T / 32\<rceil> \<and>
         sum_list (map getNumThreads (warps (?bs ! i))) = ?T \<and>
         (\<forall>j < getNumWarps (?bs ! i).
            getNumThreads (warps (?bs ! i) ! j) = min 32 (?T - 32 * j) \<and>
            1 \<le> getNumThreads (warps (?bs ! i) ! j) \<and>
            (Suc j < getNumWarps (?bs ! i) \<longrightarrow> getNumThreads (warps (?bs ! i) ! j) = 32) \<and>
            active_mask (warps (?bs ! i) ! j) = mask (getNumThreads (warps (?bs ! i) ! j)) \<and>
            (getNumThreads (warps (?bs ! i) ! j) = 32 \<longrightarrow>
               active_mask (warps (?bs ! i) ! j) = 4294967295)))"
  proof (intro impI allI)
    fix i assume t: "?T + 31 < 2 ^ 64" and i: "i < length ?bs"
    note g = generated_block_props [OF i]
    let ?b = "new_ThreadBlock (ucast (of_nat i :: size_t)) (getThreadsPerBlock ?c)"
    have ws: "warps (?bs ! i) = warps ?b" unfolding g(1) by (rule make_block_warps)
    have nw: "getNumWarps (?bs ! i) = (?T + 31) div 32"
      unfolding getNumWarps_def ws using t by (rule new_ThreadBlock_length)
    have a: "getNumWarps (?bs ! i) = nat \<lceil>real ?T / 32\<rceil>"
      unfolding nw by (simp only: ceiling_div_32)
    have b: "sum_list (map getNumThreads (warps (?bs ! i))) = ?T"
      unfolding ws using t by (rule new_ThreadBlock_total)
    have c: "getNumThreads (warps (?bs ! i) ! j) = min 32 (?T - 32 * j) \<and>
            1 \<le> getNumThreads (warps (?bs ! i) ! j) \<and>
            (Suc j < getNumWarps (?bs ! i) \<longrightarrow> getNumThreads (warps (?bs ! i) ! j) = 32) \<and>
            active_mask (warps (?bs ! i) ! j) = mask (getNumThreads (warps (?bs ! i) ! j)) \<and>
            (getNumThreads (warps (?bs ! i) ! j) = 32 \<longrightarrow>
               active_mask (warps (?bs ! i) ! j) = 4294967295)"
      if j: "j < getNumWarps (?bs ! i)" for j
    proof -
      from j have j': "j < (?T + 31) div 32" by (simp only: nw)
      have n: "getNumThreads (warps (?bs ! i) ! j) = min 32 (?T - 32 * j)"
        unfolding ws by (rule new_ThreadBlock_nth(1) [OF t j'])
      have m: "active_mask (warps (?bs ! i) ! j) = mask (min 32 (?T - 32 * j))"
        unfolding ws by (rule new_ThreadBlock_nth(2) [OF t j'])
      have pos: "32 * j < ?T" using j' by linarith
      have full: "Suc j < getNumWarps (?bs ! i) \<longrightarrow> min 32 (?T - 32 * j) = 32"
        unfolding nw by (auto simp: min_def)
      have allones: "(mask 32 :: size_t) = 4294967295" by (simp add: mask_eq_exp_minus_1)
      show ?thesis
        using pos full allones unfolding n m by (auto simp: min_def)
    qed
    from a b c show "getNumWarps (?bs ! i) = nat \<lceil>real ?T / 32\<rceil> \<and>
         sum_list (map getNumThreads (warps (?bs ! i))) = ?T \<and>
         (\<forall>j < getNumWarps (?bs ! i).
            getNumThreads (warps (?bs ! i) ! j) = min 32 (?T - 32 * j) \<and>
            1 \<le> getNumThreads (warps (?bs ! i) ! j) \<and>
            (Suc j < getNumWarps (?bs ! i) \<longrightarrow> getNumThreads (warps (?bs ! i) ! j) = 32) \<and>
            active_mask (warps (?bs ! i) ! j) = mask (getNumThreads (warps (?bs ! i) ! j)) \<and>
            (getNumThreads (warps (?bs ! i) ! j) = 32 \<longrightarrow>
               active_mask (warps (?bs ! i) ! j) = 4294967295))"
      by blast
  qed
  from p1 p2 p3 p4 p5 p6 p7 p8 p9 show ?thesis by blast
qed


theorem generateThreadBlocks_blocks_witness:
  "length (thread_blocks (generateThreadBlocks sample_workload)) \<le> 2 ^ 32 \<and>
   unat (grid_dim_x (config sample_workload)) * unat (grid_dim_y (config sample_workload)) < 2 ^ 64 \<and>
   unat (getThreadsPerBlock (config sample_workload)) + 31 < 2 ^ 64 \<and>
   3 < length (thread_blocks (generateThreadBlocks sample_workload)) \<and>
   unat (block_id (thread_blocks (generateThreadBlocks sample_workload) ! 3)) = 3 \<and>
   unat (grid_x (thread_blocks (generateThreadBlocks sample_workload) ! 3)) = 1 \<and>
   unat (grid_y (thread_blocks (generateThreadBlocks sample_workload) ! 3)) = 1 \<and>
   unat (grid_z (thread_blocks (generateThreadBlocks sample_workload) ! 3)) = 0 \<and>
   getNumWarps (thread_blocks (generateThreadBlocks sample_workload) ! 3) = 2 \<and>
   getNumThreads (warps (thread_blocks (generateThreadBlocks sample_workload) ! 3) ! 0) = 32 \<and>
   active_mask (warps (thread_blocks (generateThreadBlocks sample_workload) ! 3) ! 0) = 4294967295 \<and>
   getNumThreads (warps (thread_blocks (generateThreadBlocks sample_workload) ! 3) ! 1) = 8 \<and>
   active_mask (warps (thread_blocks (generateThreadBlocks sample_workload) ! 3) ! 1) = 255"
proof -
  let ?bs = "thread_blocks (generateThreadBlocks sample_workload)"
  note len = sample_workload_length
  note cfg = sample_workload_config
  have h1: "length ?bs \<le> 2 ^ 32" by (simp add: len)
  have h2: "unat (grid_dim_x (config sample_workload)) * unat (grid_dim_y (config sample_workload)) < 2 ^ 64"
    by (simp add: cfg)
  have h3: "unat (getThreadsPerBlock (config sample_workload)) + 31 < 2 ^ 64"
    by (simp add: cfg)
  have h4: "3 < length ?bs" by (simp add: len)
  note t = generateThreadBlocks_blocks [of sample_workload]
  from t h1 h4 have id: "unat (block_id (?bs ! 3)) = 3" by blast
  from t h2 h4 have pos: "unat (grid_x (?bs ! 3)) = 3 mod unat (grid_dim_x (config sample_workload)) \<and>
         unat (grid_y (?bs ! 3))
           = (3 div unat (grid_dim_x (config sample_workload))) mod unat (grid_dim_y (config sample_workload)) \<and>
         unat (grid_z (?bs ! 3))
           = 3 div (unat (grid_dim_x (config sample_workload)) * unat (grid_dim_y (config sample_workload)))"
    by blast
  from t h3 h4 have nw: "getNumWarps (?bs ! 3)
           = nat \<lceil>real (unat (getThreadsPerBlock (config sample_workload))) / 32\<rceil>"
    by blast
  then have nw2: "getNumWarps (?bs ! 3) = 2" by (simp add: cfg)
  from t h3 h4 have ws: "\<forall>j < getNumWarps (?bs ! 3).
            getNumThreads (warps (?bs ! 3) ! j)
              = min 32 (unat (getThreadsPerBlock (config sample_workload)) - 32 * j) \<and>
            active_mask (warps (?bs ! 3) ! j) = mask (getNumThreads (warps (?bs ! 3) ! j))"
    by blast
  then have w0: "getNumThreads (warps (?bs ! 3) ! 0) = 32"
    and m0: "active_mask (warps (?bs ! 3) ! 0) = mask 32"
    and w1: "getNumThreads (warps (?bs ! 3) ! 1) = 8"
    and m1: "active_mask (warps (?bs ! 3) ! 1) = mask 8"
    by (simp_all add: nw2 cfg)
  have masks: "(mask 32 :: size_t) = 4294967295" "(mask 8 :: size_t) = 255"
    by (simp_all add: mask_eq_exp_minus_1)
  from h1 h2 h3 h4 id pos nw2 w0 w1 m0 m1 show ?thesis
    by (simp add: cfg masks)
qed

text \<open>
  Claim C7 as stated fails when the number of blocks overflows: for a grid of \<open>2\<^sup>3\<^sup>2\<close>
  by \<open>2\<^sup>3\<^sup>2\<close> by 1 the product \<open>gx gy gz\<close> is \<open>2\<^sup>6\<^sup>4\<close>, \<open>getTotalBlocks\<close> wraps to 0 and
  no block is produced.
\<close>

theorem generateThreadBlocks_overflow_counterexample:
  "length (thread_blocks (generateThreadBlocks wide_grid_workload)) = 0 \<and>
   unat (grid_dim_x (config wide_grid_workload)) * unat (grid_dim_y (config wide_grid_workload))
     * unat (grid_dim_z (config wide_grid_workload)) = 18446744073709551616 \<and>
   length (thread_blocks (generateThreadBlocks wide_grid_workload)) \<noteq>
     unat (grid_dim_x (config wide_grid_workload)) * unat (grid_dim_y (config wide_grid_workload))
       * unat (grid_dim_z (config wide_grid_workload))"
  by (simp add: generateThreadBlocks_def getTotalBlocks_def wide_grid_workload_def new_Workload_def
      new_KernelConfig_def)

lemma getNextBlock_twice:
  assumes "thread_blocks w = map f [0..<Suc (Suc n)]"
  shows "fst (getNextBlock w) = Some (f (Suc n))"
    and "fst (getNextBlock (snd (getNextBlock w))) = Some (f n)"
proof -
  have bs: "thread_blocks w = (map f [0..<n] @ [f n]) @ [f (Suc n)]"
    using assms by simp
  show "fst (getNextBlock w) = Some (f (Suc n))"
    unfolding getNextBlock_def bs by simp
  have "snd (getNextBlock w) = w\<lparr>thread_blocks := map f [0..<n] @ [f n]\<rparr>"
    unfolding getNextBlock_def bs by (simp only: butlast_snoc) simp
  then show "fst (getNextBlock (snd (getNextBlock w))) = Some (f n)"
    by (simp add: getNextBlock_def)
qed

lemma long_grid_blocks:
  "thread_blocks (generateThreadBlocks long_grid_workload)
     = map (\<lambda>i. make_block (config long_grid_workload) (of_nat i)) [0..<Suc (Suc 4294967295)]"
proof -
  have "unat (getTotalBlocks (config long_grid_workload)) = Suc (Suc 4294967295)"
    by (simp add: long_grid_workload_def getTotalBlocks_def new_Workload_def new_KernelConfig_def)
  then show ?thesis by (simp only: generate_blocks_map)
qed

text \<open>
  Claim C8, as amended. \<open>getNextBlock\<close> on an empty sequence returns nothing and
  leaves the workload as it is; otherwise it returns the last block and removes it,
  changing no other field. \<open>hasMoreBlocks\<close>, a query, holds exactly when the sequence
  is not empty. Draining a workload therefore yields its blocks in reverse order;
  after materialisation of \<open>n\<close> blocks the ids come out as the 32-bit values of
  \<open>n - 1, \<dots>, 1, 0\<close>, which are these numbers themselves, in descending order, when
  there are at most \<open>2\<^sup>3\<^sup>2\<close> blocks.
\<close>

theorem getNextBlock_lifo:
  "(thread_blocks w = [] \<longrightarrow> getNextBlock w = (None, w)) \<and>
   (thread_blocks w \<noteq> [] \<longrightarrow>
      getNextBlock w
        = (Some (last (thread_blocks w)), w\<lparr>thread_blocks := butlast (thread_blocks w)\<rparr>)) \<and>
   (hasMoreBlocks w \<longleftrightarrow> thread_blocks w \<noteq> []) \<and>
   drain_blocks w = rev (thread_blocks w) \<and>
   map block_id (drain_blocks (generateThreadBlocks w))
     = rev (map of_nat [0..<unat (getTotalBlocks (config w))]) \<and>
   (unat (getTotalBlocks (config w)) \<le> 2 ^ 32 \<longrightarrow>
      map (\<lambda>b. unat (block_id b)) (drain_blocks (generateThreadBlocks w))
        = rev [0..<unat (getTotalBlocks (config w))])"
proof -
  let ?n = "unat (getTotalBlocks (config w))"
  have p1: "thread_blocks w = [] \<longrightarrow> getNextBlock w = (None, w)"
    by (simp add: getNextBlock_def)
  have p2: "thread_blocks w \<noteq> [] \<longrightarrow>
      getNextBlock w
        = (Some (last (thread_blocks w)), w\<lparr>thread_blocks := butlast (thread_blocks w)\<rparr>)"
    by (simp add: getNextBlock_def)
  have p3: "hasMoreBlocks w \<longleftrightarrow> thread_blocks w \<noteq> []"
    by (simp add: hasMoreBlocks_def)
  have p4: "drain_blocks w = rev (thread_blocks w)" by (rule drain_blocks_rev)
  have p5: "map block_id (drain_blocks (generateThreadBlocks w)) = rev (map of_nat [0..<?n])"
    by (simp only: drain_blocks_rev rev_map [symmetric] generated_ids)
  have p6: "?n \<le> 2 ^ 32 \<longrightarrow>
      map (\<lambda>b. unat (block_id b)) (drain_blocks (generateThreadBlocks w)) = rev [0..<?n]"
  proof
    assume n: "?n \<le> 2 ^ 32"
    have "map (\<lambda>b. unat (block_id b)) (drain_blocks (generateThreadBlocks w))
        = map unat (map block_id (drain_blocks (generateThreadBlocks w)))"
      by (simp add: comp_def)
    also have "\<dots> = rev (map (\<lambda>i. unat (of_nat i :: 32 word)) [0..<?n])"
      unfolding p5 by (simp add: rev_map comp_def)
    also have "map (\<lambda>i. unat (of_nat i :: 32 word)) [0..<?n] = map (\<lambda>i. i) [0..<?n]"
      by (rule map_cong) (use n in \<open>simp_all add: unat_block_id\<close>)
    finally show "map (\<lambda>b. unat (block_id b)) (drain_blocks (generateThreadBlocks w)) = rev [0..<?n]"
      by simp
  qed
  from p1 p2 p3 p4 p5 p6 show ?thesis by blast
qed

theorem getNextBlock_lifo_witness:
  "thread_blocks (generateThreadBlocks sample_workload) \<noteq> [] \<and>
   fst (getNextBlock (generateThreadBlocks sample_workload))
     = Some (last (thread_blocks (generateThreadBlocks sample_workload))) \<and>
   thread_blocks (sample_workload\<lparr>thread_blocks := []\<rparr>) = [] \<and>
   getNextBlock (sample_workload\<lparr>thread_blocks := []\<rparr>) = (None, sample_workload\<lparr>thread_blocks := []\<rparr>) \<and>
   unat (getTotalBlocks (config sample_workload)) \<le> 2 ^ 32 \<and>
   map (\<lambda>b. unat (block_id b)) (drain_blocks (generateThreadBlocks sample_workload)) = [3, 2, 1, 0]"
proof -
  have n: "unat (getTotalBlocks (config sample_workload)) = 4"
    by (simp add: sample_workload_def getTotalBlocks_def new_Workload_def new_KernelConfig_def)
  have ne: "thread_blocks (generateThreadBlocks sample_workload) \<noteq> []"
    using sample_workload_length by auto
  have e: "thread_blocks (sample_workload\<lparr>thread_blocks := []\<rparr>) = []" by simp
  have up: "[0..<4] = [0, 1, 2, 3]" by (simp add: upt_rec)
  from n have le: "unat (getTotalBlocks (config sample_workload)) \<le> 2 ^ 32" by simp
  from getNextBlock_lifo [of "generateThreadBlocks sample_workload"] ne
  have a: "fst (getNextBlock (generateThreadBlocks sample_workload))
     = Some (last (thread_blocks (generateThreadBlocks sample_workload)))" by simp
  from getNextBlock_lifo [of "sample_workload\<lparr>thread_blocks := []\<rparr>"] e
  have b: "getNextBlock (sample_workload\<lparr>thread_blocks := []\<rparr>)
      = (None, sample_workload\<lparr>thread_blocks := []\<rparr>)" by blast
  from getNextBlock_lifo [of sample_workload] le
  have "map (\<lambda>b. unat (block_id b)) (drain_blocks (generateThreadBlocks sample_workload))
      = rev [0..<unat (getTotalBlocks (config sample_workload))]" by blast
  then have c: "map (\<lambda>b. unat (block_id b)) (drain_blocks (generateThreadBlocks sample_workload))
      = [3, 2, 1, 0]" by (simp add: n up)
  from ne a b c le e show ?thesis by simp
qed

text \<open>
  Claim C8 as stated fails once the 32-bit block ids wrap: a workload of \<open>2\<^sup>3\<^sup>2 + 1\<close>
  blocks hands out the block with id 0 first and the block with id \<open>2\<^sup>3\<^sup>2 - 1\<close> next.
\<close>

theorem getNextBlock_id_wrap_counterexample:
  "map_option block_id (fst (getNextBlock (generateThreadBlocks long_grid_workload))) = Some 0 \<and>
   map_option block_id
     (fst (getNextBlock (snd (getNextBlock (generateThreadBlocks long_grid_workload)))))
     = Some 4294967295"
proof -
  let ?f = "\<lambda>i. make_block (config long_grid_workload) (of_nat i)"
  note pops = getNextBlock_twice [OF long_grid_blocks]
  have id1: "block_id (?f (Suc 4294967295)) = 0"
    by (simp add: make_block_id)
  have id2: "block_id (?f 4294967295) = 4294967295"
    by (simp add: make_block_id)
  show ?thesis by (simp only: pops option.map id1 id2)
qed

section \<open>Properties of the compute unit\<close>

subsection \<open>Block admission\<close>

lemma fold_count_sum:
  "fold (\<lambda>block count. count + f block) bs (n :: nat) = n + sum_list (map f bs)"
  by (induction bs arbitrary: n) simp_all

lemma getActiveWarpCount_sum: "getActiveWarpCount c = sum_list (map getNumWarps (active_blocks c))"
  by (simp add: getActiveWarpCount_def fold_count_sum)

lemma offer_warps_queue:
  "ready_queue (fold (\<lambda>p ws. snd (addWarp st (Some p) ws)) ps ws)
     = ready_queue ws
         @ take (max_warps ws - length (ready_queue ws)) (filter (\<lambda>p. warp_state (st p) = READY) ps)
   \<and> max_warps (fold (\<lambda>p ws. snd (addWarp st (Some p) ws)) ps ws) = max_warps ws"
proof (induction ps arbitrary: ws)
  case Nil
  then show ?case by simp
next
  case (Cons p ps)
  let ?ws1 = "snd (addWarp st (Some p) ws)"
  have mw: "max_warps ?ws1 = max_warps ws" by (simp add: addWarp_def)
  show ?case
  proof (cases "length (ready_queue ws) \<ge> max_warps ws")
    case True
    then have "?ws1 = ws" by (simp add: addWarp_def)
    with True Cons.IH [of ws] show ?thesis by simp
  next
    case False
    show ?thesis
    proof (cases "warp_state (st p) = READY")
      case ready: True
      with False have q: "ready_queue ?ws1 = ready_queue ws @ [p]" by (simp add: addWarp_def)
      from False obtain k where k: "max_warps ws - length (ready_queue ws) = Suc k"
        by (cases "max_warps ws - length (ready_queue ws)") auto
      then have k': "max_warps ws - Suc (length (ready_queue ws)) = k" by simp
      from Cons.IH [of ?ws1] ready show ?thesis by (simp add: q mw k k')
    next
      case notready: False
      with False have "?ws1 = ws" by (simp add: addWarp_def)
      with notready Cons.IH [of ws] show ?thesis by simp
    qed
  qed
qed

lemma sample_system_fields:
  "ready_queue (warp_scheduler (cu sample_system)) = [0]"
  "max_warps (warp_scheduler (cu sample_system)) = 64"
  "max_blocks_per_cu (cu sample_system) = 16"
  "max_warps_per_cu (cu sample_system) = 64"
  "active_blocks (cu sample_system) = [sample_block 0 [0]]"
  "cycles_executed (cu sample_system) = 0"
  "idle_cycles (cu sample_system) = 0"
  "instructions_executed (cu sample_system) = 0"
  "controller sample_system = new_MemoryController"
  "warp_instructions_executed (warps_at sample_system q) = 0"
  "program_counter (warps_at sample_system q) = 0"
  "warp_state (warps_at sample_system q) = READY"
  by (simp_all add: sample_system_def new_ComputeUnit_def new_Warp_def)

lemma sample_block_fields: "warps (sample_block bid ps) = ps" "getNumWarps (sample_block bid ps) = length ps"
  by (simp_all add: sample_block_def getNumWarps_def)

text \<open>
  Claim C3. \<open>canAcceptBlock\<close> rejects a null block and accepts a block exactly when
  the compute unit holds fewer than \<open>max_blocks_per_cu\<close> active blocks and the warp
  counts of the active blocks plus that of the new block do not exceed
  \<open>max_warps_per_cu\<close>; the constructor sets these limits to 16 and 64. \<open>assignBlock\<close>
  repeats the test: on rejection it returns false and leaves the whole state as it
  is. On success it returns true, offers the warps of the block to the warp scheduler
  in order (the ready ones are appended to the queue as long as it has room),
  appends the block to the active blocks and sets the state to \<open>RUNNING\<close>; nothing
  else changes.
\<close>

theorem block_admission:
  "canAcceptBlock c None = False \<and>
   (canAcceptBlock c (Some b) \<longleftrightarrow>
      length (active_blocks c) < max_blocks_per_cu c \<and>
      sum_list (map getNumWarps (active_blocks c)) + getNumWarps b \<le> max_warps_per_cu c) \<and>
   max_blocks_per_cu (new_ComputeUnit cid stalled0) = 16 \<and>
   max_warps_per_cu (new_ComputeUnit cid stalled0) = 64 \<and>
   (\<not> canAcceptBlock (cu s) block \<longrightarrow> assignBlock block s = (False, s)) \<and>
   (canAcceptBlock (cu s) (Some b) \<longrightarrow>
      assignBlock (Some b) s =
        (True,
         s\<lparr>cu := (cu s)
              \<lparr>warp_scheduler := (warp_scheduler (cu s))
                 \<lparr>ready_queue :=
                    ready_queue (warp_scheduler (cu s))
                      @ take (max_warps (warp_scheduler (cu s)) - length (ready_queue (warp_scheduler (cu s))))
                          (filter (\<lambda>p. warp_state (warps_at s p) = READY) (warps b))\<rparr>,
               active_blocks := active_blocks (cu s) @ [b],
               cu_state := RUNNING\<rparr>\<rparr>))"
proof -
  have p1: "canAcceptBlock c None = False" by (simp add: canAcceptBlock_def)
  have p2: "canAcceptBlock c (Some b) \<longleftrightarrow>
      length (active_blocks c) < max_blocks_per_cu c \<and>
      sum_list (map getNumWarps (active_blocks c)) + getNumWarps b \<le> max_warps_per_cu c"
    by (auto simp: canAcceptBlock_def getActiveWarpCount_sum)
  have p3: "max_blocks_per_cu (new_ComputeUnit cid stalled0) = 16 \<and>
      max_warps_per_cu (new_ComputeUnit cid stalled0) = 64"
    by (simp add: new_ComputeUnit_def)
  have p4: "\<not> canAcceptBlock (cu s) block \<longrightarrow> assignBlock block s = (False, s)"
    by (simp add: assignBlock_def)
  have p5: "assignBlock (Some b) s =
        (True,
         s\<lparr>cu := (cu s)
              \<lparr>warp_scheduler := (warp_scheduler (cu s))
                 \<lparr>ready_queue :=
                    ready_queue (warp_scheduler (cu s))
                      @ take (max_warps (warp_scheduler (cu s)) - length (ready_queue (warp_scheduler (cu s))))
                          (filter (\<lambda>p. warp_state (warps_at s p) = READY) (warps b))\<rparr>,
               active_blocks := active_blocks (cu s) @ [b],
               cu_state := RUNNING\<rparr>\<rparr>)"
    if acc: "canAcceptBlock (cu s) (Some b)"
  proof -
    let ?ws = "fold (\<lambda>p ws. snd (addWarp (warps_at s) (Some p) ws)) (warps b) (warp_scheduler (cu s))"
    note q = offer_warps_queue [of "warps_at s" "warps b" "warp_scheduler (cu s)"]
    have "?ws = (warp_scheduler (cu s))
                 \<lparr>ready_queue :=
                    ready_queue (warp_scheduler (cu s))
                      @ take (max_warps (warp_scheduler (cu s)) - length (ready_queue (warp_scheduler (cu s))))
                          (filter (\<lambda>p. warp_state (warps_at s p) = READY) (warps b))\<rparr>"
      using q by (intro WarpScheduler.equality) simp_all
    then show ?thesis using acc by (simp add: assignBlock_def on_cu_def)
  qed
  from p1 p2 p3 p4 p5 show ?thesis by blast
qed

theorem block_admission_witness:
  "canAcceptBlock (cu sample_system) (Some (sample_block 1 [1, 2])) \<and>
   assignBlock (Some (sample_block 1 [1, 2])) sample_system =
     (True,
      sample_system\<lparr>cu := (cu sample_system)
         \<lparr>warp_scheduler := (warp_scheduler (cu sample_system))\<lparr>ready_queue := [0, 1, 2]\<rparr>,
          active_blocks := [sample_block 0 [0], sample_block 1 [1, 2]],
          cu_state := RUNNING\<rparr>\<rparr>) \<and>
   \<not> canAcceptBlock (cu sample_system) (Some (sample_block 2 (replicate 64 3))) \<and>
   assignBlock (Some (sample_block 2 (replicate 64 3))) sample_system = (False, sample_system)"
proof -
  note f = sample_system_fields sample_block_fields
  note t = block_admission [of "cu sample_system" "sample_block 1 [1, 2]" 0 0 sample_system
      "Some (sample_block 2 (replicate 64 3))"]
  note u = block_admission [of "cu sample_system" "sample_block 2 (replicate 64 3)" 0 0 sample_system
      "Some (sample_block 2 (replicate 64 3))"]
  from t have acc: "canAcceptBlock (cu sample_system) (Some (sample_block 1 [1, 2]))"
    by (simp add: f)
  from u have rej: "\<not> canAcceptBlock (cu sample_system) (Some (sample_block 2 (replicate 64 3)))"
    by (simp add: f)
  from t acc have a: "assignBlock (Some (sample_block 1 [1, 2])) sample_system =
     (True,
      sample_system\<lparr>cu := (cu sample_system)
         \<lparr>warp_scheduler := (warp_scheduler (cu sample_system))\<lparr>ready_queue := [0, 1, 2]\<rparr>,
          active_blocks := [sample_block 0 [0], sample_block 1 [1, 2]],
          cu_state := RUNNING\<rparr>\<rparr>)"
    by (simp add: f)
  from u rej have r: "assignBlock (Some (sample_block 2 (replicate 64 3))) sample_system
      = (False, sample_system)" by blast
  from acc a rej r show ?thesis by blast
qed

subsection \<open>One simulated cycle\<close>

text \<open>
  The ready queue never holds more than \<open>max_warps\<close> entries: it is empty at
  construction, and \<open>addWarp\<close>, its only producer, refuses to grow a full queue.
\<close>

lemma stall_fold:
  "fold (\<lambda>k. on_cu (\<lambda>c. c\<lparr>cycles_executed := cycles_executed c + 1\<rparr>)) [0..<n] s
     = on_cu (\<lambda>c. c\<lparr>cycles_executed := cycles_executed c + of_nat n\<rparr>) s"
  by (induction n arbitrary: s) (simp_all add: on_cu_def)

lemma stall_eq:
  "stall s = on_cu (\<lambda>c. c\<lparr>cycles_executed :=
      cycles_executed c + latency_cycles (global_memory (controller s)) div 10\<rparr>) s"
  by (simp add: stall_def stall_fold)

lemmas warp_ops = recordInstruction_def incrementPC_def recordStall_def Warp_setState_def

lemma executeWarp_8:
  "executeWarp (Some p) 8 s =
     s\<lparr>warps_at := (warps_at s)(p := (warps_at s p)
          \<lparr>warp_state := READY,
           program_counter := program_counter (warps_at s p) + 8,
           warp_instructions_executed := warp_instructions_executed (warps_at s p) + 8,
           warp_cycles_stalled := warp_cycles_stalled (warps_at s p) + 1\<rparr>),
       controller := (controller s)\<lparr>total_memory_ops := total_memory_ops (controller s) + 2\<rparr>,
       cu := (cu s)
          \<lparr>cycles_executed := cycles_executed (cu s)
              + latency_cycles (global_memory (controller s)) div 10,
           instructions_executed := instructions_executed (cu s) + 8,
           warps_executed := warps_executed (cu s) + 1,
           cycles_stalled := cycles_stalled (cu s) + 1\<rparr>\<rparr>"
  by (auto simp: executeWarp_def execute_instruction_def stall_eq on_warp_def on_cu_def warp_ops
        recordMemoryOp_def Let_def upt_rec
        intro!: cu_system.equality Warp.equality ComputeUnit.equality MemoryController.equality ext)


lemma execute_instruction_step:
  assumes "i < 8"
  shows "total_memory_ops (controller (execute_instruction p i s))
           = total_memory_ops (controller s) + (if i = 0 \<or> i = 5 then 1 else 0)"
    and "cycles_stalled (cu (execute_instruction p i s))
           = cycles_stalled (cu s) + (if i = 0 then 1 else 0)"
    and "warp_cycles_stalled (warps_at (execute_instruction p i s) p)
           = warp_cycles_stalled (warps_at s p) + (if i = 0 then 1 else 0)"
    and "cycles_executed (cu (execute_instruction p i s))
           = cycles_executed (cu s)
               + (if i = 0 then latency_cycles (global_memory (controller s)) div 10 else 0)"
    and "warp_instructions_executed (warps_at (execute_instruction p i s) p)
           = warp_instructions_executed (warps_at s p) + 1"
    and "program_counter (warps_at (execute_instruction p i s) p)
           = program_counter (warps_at s p) + 1"
    and "instructions_executed (cu (execute_instruction p i s))
           = instructions_executed (cu s) + 1"
proof -
  from assms consider "i = 0" | "i = 1" | "i = 2" | "i = 3" | "i = 4" | "i = 5" | "i = 6" | "i = 7"
    by linarith
  note cases = this
  note defs = execute_instruction_def stall_eq on_warp_def on_cu_def warp_ops recordMemoryOp_def Let_def
  show "total_memory_ops (controller (execute_instruction p i s))
           = total_memory_ops (controller s) + (if i = 0 \<or> i = 5 then 1 else 0)"
    by (rule cases) (simp_all add: defs)
  show "cycles_stalled (cu (execute_instruction p i s))
           = cycles_stalled (cu s) + (if i = 0 then 1 else 0)"
    by (rule cases) (simp_all add: defs)
  show "warp_cycles_stalled (warps_at (execute_instruction p i s) p)
           = warp_cycles_stalled (warps_at s p) + (if i = 0 then 1 else 0)"
    by (rule cases) (simp_all add: defs)
  show "cycles_executed (cu (execute_instruction p i s))
           = cycles_executed (cu s)
               + (if i = 0 then latency_cycles (global_memory (controller s)) div 10 else 0)"
    by (rule cases) (simp_all add: defs)
  show "warp_instructions_executed (warps_at (execute_instruction p i s) p)
           = warp_instructions_executed (warps_at s p) + 1"
    by (rule cases) (simp_all add: defs)
  show "program_counter (warps_at (execute_instruction p i s) p)
           = program_counter (warps_at s p) + 1"
    by (rule cases) (simp_all add: defs)
  show "instructions_executed (cu (execute_instruction p i s))
           = instructions_executed (cu s) + 1"
    by (rule cases) (simp_all add: defs)
qed

lemma simulateCycle_idle:
  "ready_queue (warp_scheduler (cu s)) = [] \<Longrightarrow>
   simulateCycle s =
     s\<lparr>cu := (cu s)\<lparr>cycles_executed := cycles_executed (cu s) + 1,
                      idle_cycles := idle_cycles (cu s) + 1\<rparr>\<rparr>"
  by (auto simp: simulateCycle_def getNextWarp_def on_cu_def Let_def
        intro!: cu_system.equality ComputeUnit.equality WarpScheduler.equality)

lemma simulateCycle_busy:
  assumes q: "ready_queue (warp_scheduler (cu s)) = p # rest"
    and bound: "length (ready_queue (warp_scheduler (cu s))) \<le> max_warps (warp_scheduler (cu s))"
  defines "n \<equiv> warp_instructions_executed (warps_at s p) + 8"
  defines "st \<equiv> (warps_at s)(p := (warps_at s p)
          \<lparr>program_counter := program_counter (warps_at s p) + 8,
           warp_instructions_executed := n,
           warp_cycles_stalled := warp_cycles_stalled (warps_at s p) + 1,
           warp_state := (if 1000 \<le> n then COMPLETED else READY)\<rparr>)"
  shows "simulateCycle s =
     s\<lparr>warps_at := st,
       controller := (controller s)\<lparr>total_memory_ops := total_memory_ops (controller s) + 2\<rparr>,
       cu := (cu s)
          \<lparr>active_blocks :=
             (if 1000 \<le> n then mark_done_blocks st (active_blocks (cu s)) else active_blocks (cu s)),
           warp_scheduler := (warp_scheduler (cu s))
             \<lparr>ready_queue := (if 1000 \<le> n then rest else rest @ [p])\<rparr>,
           cycles_executed := cycles_executed (cu s) + 1
              + latency_cycles (global_memory (controller s)) div 10,
           instructions_executed := instructions_executed (cu s) + 8,
           warps_executed := warps_executed (cu s) + 1,
           cycles_stalled := cycles_stalled (cu s) + 1\<rparr>\<rparr>"
proof -
  from q bound have room: "\<not> max_warps (warp_scheduler (cu s)) \<le> length rest" by simp
  show ?thesis
    unfolding n_def st_def using q room
    by (auto simp: simulateCycle_def getNextWarp_def executeWarp_8 addWarp_def on_cu_def on_warp_def
          warp_ops Let_def
          intro!: cu_system.equality ComputeUnit.equality WarpScheduler.equality Warp.equality ext)
qed


lemma simulateCycle_cycles:
  "cycles_executed (cu (simulateCycle s)) =
     cycles_executed (cu s) + 1
       + (if ready_queue (warp_scheduler (cu s)) = [] then 0
          else latency_cycles (global_memory (controller s)) div 10)"
  by (auto simp: simulateCycle_def getNextWarp_def executeWarp_8 addWarp_def on_cu_def on_warp_def
        Let_def split: list.splits)

lemma addWarp_bound:
  "length (ready_queue ws) \<le> max_warps ws \<Longrightarrow>
   length (ready_queue (snd (addWarp st w ws))) \<le> max_warps (snd (addWarp st w ws))"
  by (auto simp: addWarp_def split: option.splits)

lemma simulateCycle_bound:
  "length (ready_queue (warp_scheduler (cu s))) \<le> max_warps (warp_scheduler (cu s)) \<Longrightarrow>
   length (ready_queue (warp_scheduler (cu (simulateCycle s))))
     \<le> max_warps (warp_scheduler (cu (simulateCycle s)))"
  by (auto simp: simulateCycle_def getNextWarp_def executeWarp_8 addWarp_def on_cu_def on_warp_def
        Let_def split: list.splits)

lemma assignBlock_bound:
  "length (ready_queue (warp_scheduler (cu s))) \<le> max_warps (warp_scheduler (cu s)) \<Longrightarrow>
   length (ready_queue (warp_scheduler (cu (snd (assignBlock block s)))))
     \<le> max_warps (warp_scheduler (cu (snd (assignBlock block s))))"
  using offer_warps_queue [of "warps_at s" _ "warp_scheduler (cu s)"]
  by (auto simp: assignBlock_def on_cu_def split: option.splits)

lemma new_ComputeUnit_bound:
  "length (ready_queue (warp_scheduler (new_ComputeUnit cid st0)))
     \<le> max_warps (warp_scheduler (new_ComputeUnit cid st0))"
  by (simp add: new_ComputeUnit_def new_WarpScheduler_def)

lemma default_latency: "latency_cycles (global_memory new_MemoryController) div 10 = 40"
  by (simp add: new_MemoryController_def new_GlobalMemory_def)

text \<open>
  Claim C2. Every \<open>simulateCycle\<close> adds 1 to \<open>cycles_executed\<close>, plus the stall
  \<open>\<lfloor>latency / 10\<rfloor>\<close> when a warp is fetched; the latency of the global memory of a
  memory controller is 400, so the stall is 40. With an empty ready queue the call
  also adds 1 to \<open>idle_cycles\<close> and changes nothing else. Otherwise it takes the warp
  at the head of the queue and executes 8 instructions on it: the warp's instruction
  counter and program counter grow by 8 and its stall counter by 1, the instruction
  counter of the compute unit grows by 8, its stall counter by 1 and its count of
  executed warps by 1, and the controller records 2 memory operations. Step by step:
  each of the 8 steps counts one instruction on the warp, the program counter and the
  compute unit; steps 0 and 5 record a memory operation; step 0 alone records a stall
  and advances \<open>cycles_executed\<close> by the stall. After the batch a warp with at least
  1000 instructions is \<open>COMPLETED\<close>, is not queued again, and the blocks whose warps
  are all completed are marked; any other warp is \<open>READY\<close> and is appended to the
  queue (which has room, since the queue is bounded).
\<close>

theorem simulateCycle_effect:
  "cycles_executed (cu (simulateCycle s)) =
     cycles_executed (cu s) + 1
       + (if ready_queue (warp_scheduler (cu s)) = [] then 0
          else latency_cycles (global_memory (controller s)) div 10) \<and>
   latency_cycles (global_memory new_MemoryController) div 10 = 40 \<and>
   (ready_queue (warp_scheduler (cu s)) = [] \<longrightarrow>
      simulateCycle s =
        s\<lparr>cu := (cu s)\<lparr>cycles_executed := cycles_executed (cu s) + 1,
                         idle_cycles := idle_cycles (cu s) + 1\<rparr>\<rparr>) \<and>
   (ready_queue (warp_scheduler (cu s)) = p # rest \<and>
    length (ready_queue (warp_scheduler (cu s))) \<le> max_warps (warp_scheduler (cu s)) \<longrightarrow>
      (let n = warp_instructions_executed (warps_at s p) + 8;
           st = (warps_at s)(p := (warps_at s p)
                  \<lparr>program_counter := program_counter (warps_at s p) + 8,
                   warp_instructions_executed := n,
                   warp_cycles_stalled := warp_cycles_stalled (warps_at s p) + 1,
                   warp_state := (if 1000 \<le> n then COMPLETED else READY)\<rparr>)
       in simulateCycle s =
            s\<lparr>warps_at := st,
              controller := (controller s)\<lparr>total_memory_ops := total_memory_ops (controller s) + 2\<rparr>,
              cu := (cu s)
                 \<lparr>active_blocks :=
                    (if 1000 \<le> n then mark_done_blocks st (active_blocks (cu s))
                     else active_blocks (cu s)),
                  warp_scheduler := (warp_scheduler (cu s))
                    \<lparr>ready_queue := (if 1000 \<le> n then rest else rest @ [p])\<rparr>,
                  cycles_executed := cycles_executed (cu s) + 1
                     + latency_cycles (global_memory (controller s)) div 10,
                  instructions_executed := instructions_executed (cu s) + 8,
                  warps_executed := warps_executed (cu s) + 1,
                  cycles_stalled := cycles_stalled (cu s) + 1\<rparr>\<rparr>)) \<and>
   (\<forall>i<8.
      total_memory_ops (controller (execute_instruction p i s))
        = total_memory_ops (controller s) + (if i = 0 \<or> i = 5 then 1 else 0) \<and>
      cycles_stalled (cu (execute_instruction p i s))
        = cycles_stalled (cu s) + (if i = 0 then 1 else 0) \<and>
      warp_cycles_stalled (warps_at (execute_instruction p i s) p)
        = warp_cycles_stalled (warps_at s p) + (if i = 0 then 1 else 0) \<and>
      cycles_executed (cu (execute_instruction p i s))
        = cycles_executed (cu s)
            + (if i = 0 then latency_cycles (global_memory (controller s)) div 10 else 0) \<and>
      warp_instructions_executed (warps_at (execute_instruction p i s) p)
        = warp_instructions_executed (warps_at s p) + 1 \<and>
      program_counter (warps_at (execute_instruction p i s) p)
        = program_counter (warps_at s p) + 1 \<and>
      instructions_executed (cu (execute_instruction p i s))
        = instructions_executed (cu s) + 1)"
proof -
  note p1 = simulateCycle_cycles [of s]
  note p2 = default_latency
  have p3: "ready_queue (warp_scheduler (cu s)) = [] \<longrightarrow>
      simulateCycle s =
        s\<lparr>cu := (cu s)\<lparr>cycles_executed := cycles_executed (cu s) + 1,
                         idle_cycles := idle_cycles (cu s) + 1\<rparr>\<rparr>"
    using simulateCycle_idle [of s] by blast
  have p4: "ready_queue (warp_scheduler (cu s)) = p # rest \<and>
    length (ready_queue (warp_scheduler (cu s))) \<le> max_warps (warp_scheduler (cu s)) \<longrightarrow>
      (let n = warp_instructions_executed (warps_at s p) + 8;
           st = (warps_at s)(p := (warps_at s p)
                  \<lparr>program_counter := program_counter (warps_at s p) + 8,
                   warp_instructions_executed := n,
                   warp_cycles_stalled := warp_cycles_stalled (warps_at s p) + 1,
                   warp_state := (if 1000 \<le> n then COMPLETED else READY)\<rparr>)
       in simulateCycle s =
            s\<lparr>warps_at := st,
              controller := (controller s)\<lparr>total_memory_ops := total_memory_ops (controller s) + 2\<rparr>,
              cu := (cu s)
                 \<lparr>active_blocks :=
                    (if 1000 \<le> n then mark_done_blocks st (active_blocks (cu s))
                     else active_blocks (cu s)),
                  warp_scheduler := (warp_scheduler (cu s))
                    \<lparr>ready_queue := (if 1000 \<le> n then rest else rest @ [p])\<rparr>,
                  cycles_executed := cycles_executed (cu s) + 1
                     + latency_cycles (global_memory (controller s)) div 10,
                  instructions_executed := instructions_executed (cu s) + 8,
                  warps_executed := warps_executed (cu s) + 1,
                  cycles_stalled := cycles_stalled (cu s) + 1\<rparr>\<rparr>)"
    unfolding Let_def using simulateCycle_busy [of s p rest] by blast
  have p5: "\<forall>i<8.
      total_memory_ops (controller (execute_instruction p i s))
        = total_memory_ops (controller s) + (if i = 0 \<or> i = 5 then 1 else 0) \<and>
      cycles_stalled (cu (execute_instruction p i s))
        = cycles_stalled (cu s) + (if i = 0 then 1 else 0) \<and>
      warp_cycles_stalled (warps_at (execute_instruction p i s) p)
        = warp_cycles_stalled (warps_at s p) + (if i = 0 then 1 else 0) \<and>
      cycles_executed (cu (execute_instruction p i s))
        = cycles_executed (cu s)
            + (if i = 0 then latency_cycles (global_memory (controller s)) div 10 else 0) \<and>
      warp_instructions_executed (warps_at (execute_instruction p i s) p)
        = warp_instructions_executed (warps_at s p) + 1 \<and>
      program_counter (warps_at (execute_instruction p i s) p)
        = program_counter (warps_at s p) + 1 \<and>
      instructions_executed (cu (execute_instruction p i s))
        = instructions_executed (cu s) + 1"
    using execute_instruction_step [of _ p s] by blast
  from p1 p2 p3 p4 p5 show ?thesis by blast
qed

theorem simulateCycle_effect_witness:
  "ready_queue (warp_scheduler (cu sample_system)) = 0 # [] \<and>
   length (ready_queue (warp_scheduler (cu sample_system))) \<le> max_warps (warp_scheduler (cu sample_system)) \<and>
   (0::nat) < 8 \<and>
   cycles_executed (cu (simulateCycle sample_system)) = 41 \<and>
   idle_cycles (cu (simulateCycle sample_system)) = 0 \<and>
   instructions_executed (cu (simulateCycle sample_system)) = 8 \<and>
   total_memory_ops (controller (simulateCycle sample_system)) = 2 \<and>
   warp_instructions_executed (warps_at (simulateCycle sample_system) 0) = 8 \<and>
   program_counter (warps_at (simulateCycle sample_system) 0) = 8 \<and>
   warp_state (warps_at (simulateCycle sample_system) 0) = READY \<and>
   ready_queue (warp_scheduler (cu (simulateCycle sample_system))) = [0] \<and>
   total_memory_ops (controller (execute_instruction 0 0 sample_system)) = 1 \<and>
   ready_queue (warp_scheduler (cu (sample_system\<lparr>cu := (cu sample_system)\<lparr>warp_scheduler := new_WarpScheduler 64\<rparr>\<rparr>))) = [] \<and>
   idle_cycles (cu (simulateCycle (sample_system\<lparr>cu := (cu sample_system)\<lparr>warp_scheduler := new_WarpScheduler 64\<rparr>\<rparr>))) = 1 \<and>
   cycles_executed (cu (simulateCycle (sample_system\<lparr>cu := (cu sample_system)\<lparr>warp_scheduler := new_WarpScheduler 64\<rparr>\<rparr>))) = 1 \<and>
   warp_state (warps_at (simulateCycle (on_warp 0 (\<lambda>w. w\<lparr>warp_instructions_executed := 992\<rparr>) sample_system)) 0) = COMPLETED \<and>
   ready_queue (warp_scheduler (cu (simulateCycle (on_warp 0 (\<lambda>w. w\<lparr>warp_instructions_executed := 992\<rparr>) sample_system)))) = [] \<and>
   map block_completed (active_blocks (cu (simulateCycle (on_warp 0 (\<lambda>w. w\<lparr>warp_instructions_executed := 992\<rparr>) sample_system)))) = [True]"
proof -
  let ?idle = "sample_system\<lparr>cu := (cu sample_system)\<lparr>warp_scheduler := new_WarpScheduler 64\<rparr>\<rparr>"
  note f = sample_system_fields
  have q: "ready_queue (warp_scheduler (cu sample_system)) = 0 # []" by (simp add: f)
  have b: "length (ready_queue (warp_scheduler (cu sample_system)))
      \<le> max_warps (warp_scheduler (cu sample_system))" by (simp add: f)
  have e: "ready_queue (warp_scheduler (cu ?idle)) = []" by (simp add: new_WarpScheduler_def)
  note t = simulateCycle_effect [of sample_system 0 "[]"]
  from t q b have busy: "simulateCycle sample_system =
      sample_system\<lparr>warps_at := (warps_at sample_system)(0 := (warps_at sample_system 0)
                  \<lparr>program_counter := program_counter (warps_at sample_system 0) + 8,
                   warp_instructions_executed := warp_instructions_executed (warps_at sample_system 0) + 8,
                   warp_cycles_stalled := warp_cycles_stalled (warps_at sample_system 0) + 1,
                   warp_state := READY\<rparr>),
              controller := (controller sample_system)
                 \<lparr>total_memory_ops := total_memory_ops (controller sample_system) + 2\<rparr>,
              cu := (cu sample_system)
                 \<lparr>active_blocks := active_blocks (cu sample_system),
                  warp_scheduler := (warp_scheduler (cu sample_system))\<lparr>ready_queue := [0]\<rparr>,
                  cycles_executed := cycles_executed (cu sample_system) + 1
                     + latency_cycles (global_memory (controller sample_system)) div 10,
                  instructions_executed := instructions_executed (cu sample_system) + 8,
                  warps_executed := warps_executed (cu sample_system) + 1,
                  cycles_stalled := cycles_stalled (cu sample_system) + 1\<rparr>\<rparr>"
    by (simp add: Let_def f)
  from t have lat: "latency_cycles (global_memory new_MemoryController) div 10 = 40" by blast
  have mo: "total_memory_ops new_MemoryController = 0" by (simp add: new_MemoryController_def)
  from t have st0: "total_memory_ops (controller (execute_instruction 0 0 sample_system))
      = total_memory_ops (controller sample_system) + 1" by simp
  from simulateCycle_effect [of ?idle 0 "[]"] e
  have idle: "simulateCycle ?idle =
      ?idle\<lparr>cu := (cu ?idle)\<lparr>cycles_executed := cycles_executed (cu ?idle) + 1,
                         idle_cycles := idle_cycles (cu ?idle) + 1\<rparr>\<rparr>"
    by blast
  have r1: "cycles_executed (cu (simulateCycle sample_system)) = 41"
    by (simp add: busy f lat)
  have r2: "idle_cycles (cu (simulateCycle sample_system)) = 0"
    "instructions_executed (cu (simulateCycle sample_system)) = 8"
    "total_memory_ops (controller (simulateCycle sample_system)) = 2"
    "warp_instructions_executed (warps_at (simulateCycle sample_system) 0) = 8"
    "program_counter (warps_at (simulateCycle sample_system) 0) = 8"
    "warp_state (warps_at (simulateCycle sample_system) 0) = READY"
    "ready_queue (warp_scheduler (cu (simulateCycle sample_system))) = [0]"
    by (simp_all add: busy f mo)
  have r3: "total_memory_ops (controller (execute_instruction 0 0 sample_system)) = 1"
    using st0 by (simp add: f mo)
  have r4: "idle_cycles (cu (simulateCycle ?idle)) = 1" "cycles_executed (cu (simulateCycle ?idle)) = 1"
    by (simp_all add: idle f)
  have late: "warp_state (warps_at (simulateCycle (on_warp 0 (\<lambda>w. w\<lparr>warp_instructions_executed := 992\<rparr>) sample_system)) 0) = COMPLETED \<and>
   ready_queue (warp_scheduler (cu (simulateCycle (on_warp 0 (\<lambda>w. w\<lparr>warp_instructions_executed := 992\<rparr>) sample_system)))) = [] \<and>
   map block_completed (active_blocks (cu (simulateCycle (on_warp 0 (\<lambda>w. w\<lparr>warp_instructions_executed := 992\<rparr>) sample_system)))) = [True]"
  proof -
    let ?s = "on_warp 0 (\<lambda>w. w\<lparr>warp_instructions_executed := 992\<rparr>) sample_system"
    note f = sample_system_fields
    have q: "ready_queue (warp_scheduler (cu ?s)) = 0 # []" by (simp add: on_warp_def f)
    have b: "length (ready_queue (warp_scheduler (cu ?s))) \<le> max_warps (warp_scheduler (cu ?s))"
      by (simp add: on_warp_def f)
    have n: "warp_instructions_executed (warps_at ?s 0) + 8 = 1000" by (simp add: on_warp_def)
    from simulateCycle_effect [of ?s 0 "[]"] q b
    have eq: "(let n = warp_instructions_executed (warps_at ?s 0) + 8;
             st = (warps_at ?s)(0 := (warps_at ?s 0)
                    \<lparr>program_counter := program_counter (warps_at ?s 0) + 8,
                     warp_instructions_executed := n,
                     warp_cycles_stalled := warp_cycles_stalled (warps_at ?s 0) + 1,
                     warp_state := (if 1000 \<le> n then COMPLETED else READY)\<rparr>)
         in simulateCycle ?s =
              ?s\<lparr>warps_at := st,
                controller := (controller ?s)\<lparr>total_memory_ops := total_memory_ops (controller ?s) + 2\<rparr>,
                cu := (cu ?s)
                   \<lparr>active_blocks :=
                      (if 1000 \<le> n then mark_done_blocks st (active_blocks (cu ?s))
                       else active_blocks (cu ?s)),
                    warp_scheduler := (warp_scheduler (cu ?s))
                      \<lparr>ready_queue := (if 1000 \<le> n then [] else [] @ [0])\<rparr>,
                    cycles_executed := cycles_executed (cu ?s) + 1
                       + latency_cycles (global_memory (controller ?s)) div 10,
                    instructions_executed := instructions_executed (cu ?s) + 8,
                    warps_executed := warps_executed (cu ?s) + 1,
                    cycles_stalled := cycles_stalled (cu ?s) + 1\<rparr>\<rparr>)"
      by blast
    have ab: "active_blocks (cu ?s) = [sample_block 0 [0]]" by (simp add: on_warp_def f)
    show ?thesis
      using eq unfolding Let_def n
      by (simp add: ab mark_done_blocks_def sample_block_def markCompleted_def)
  qed
  from q b r1 r2 r3 e r4 late show ?thesis by simp
qed

end
